theory Spec2Isabelle
  imports Complex_Main
begin

section \<open>Scalars\<close>

text \<open>
  The kernels of \<^verbatim>\<open>aten/src/ATen/native/Normalization.cpp\<close> are templates over
  \<^verbatim>\<open>scalar_t\<close> (float or double) and accumulate in \<^verbatim>\<open>accscalar_t\<close>. A scalar is
  modelled as an exact real number or one of the three special values of IEEE
  arithmetic. Rounding and overflow to infinity are not modelled, the two zeros are
  one value (taken as the positive zero), and the casts between \<^verbatim>\<open>scalar_t\<close>,
  \<^verbatim>\<open>accscalar_t\<close> and \<^verbatim>\<open>double\<close> are the identity. What is kept is everything the
  code does with a zero divisor, the square root of a negative number, an infinity
  or a NaN, which the total division and square root of \<^typ>\<open>real\<close> would hide.
\<close>

datatype scalar = Fin real | PInf | NInf | NaN

fun is_fin :: "scalar \<Rightarrow> bool" where
  "is_fin (Fin x) = True"
| "is_fin PInf = False"
| "is_fin NInf = False"
| "is_fin NaN = False"

text \<open>The sign of a scalar, with 0 for a zero and for NaN.\<close>

fun sign_of :: "scalar \<Rightarrow> real" where
  "sign_of (Fin x) = sgn x"
| "sign_of PInf = 1"
| "sign_of NInf = - 1"
| "sign_of NaN = 0"

text \<open>The infinity of a given sign; the sign 0 stands for an invalid operation.\<close>

definition signed_inf :: "real \<Rightarrow> scalar" where
  "signed_inf s = (if 0 < s then PInf else if s < 0 then NInf else NaN)"

instantiation scalar :: "{zero, one, plus, uminus, minus, times, inverse, ord}"
begin

definition zero_scalar :: scalar where
  "zero_scalar = Fin 0"

definition one_scalar :: scalar where
  "one_scalar = Fin 1"

fun plus_scalar :: "scalar \<Rightarrow> scalar \<Rightarrow> scalar" where
  "plus_scalar (Fin x) (Fin y) = Fin (x + y)"
| "plus_scalar NaN b = NaN"
| "plus_scalar a NaN = NaN"
| "plus_scalar PInf NInf = NaN"
| "plus_scalar NInf PInf = NaN"
| "plus_scalar PInf b = PInf"
| "plus_scalar NInf b = NInf"
| "plus_scalar a PInf = PInf"
| "plus_scalar a NInf = NInf"

fun uminus_scalar :: "scalar \<Rightarrow> scalar" where
  "uminus_scalar (Fin x) = Fin (- x)"
| "uminus_scalar PInf = NInf"
| "uminus_scalar NInf = PInf"
| "uminus_scalar NaN = NaN"

definition minus_scalar :: "scalar \<Rightarrow> scalar \<Rightarrow> scalar" where
  "minus_scalar a b = a + (- b)"

fun times_scalar :: "scalar \<Rightarrow> scalar \<Rightarrow> scalar" where
  "times_scalar (Fin x) (Fin y) = Fin (x * y)"
| "times_scalar a b = signed_inf (sign_of a * sign_of b)"

fun divide_scalar :: "scalar \<Rightarrow> scalar \<Rightarrow> scalar" where
  "divide_scalar (Fin x) (Fin y) = (if y = 0 then signed_inf (sgn x) else Fin (x / y))"
| "divide_scalar NaN b = NaN"
| "divide_scalar a NaN = NaN"
| "divide_scalar (Fin x) b = Fin 0"
| "divide_scalar a (Fin y) = signed_inf (sign_of a * (if y < 0 then - 1 else 1))"
| "divide_scalar a b = NaN"

definition inverse_scalar :: "scalar \<Rightarrow> scalar" where
  "inverse_scalar a = divide (Fin 1) a"

text \<open>The comparisons of IEEE arithmetic: every comparison with NaN is false.\<close>

fun less_scalar :: "scalar \<Rightarrow> scalar \<Rightarrow> bool" where
  "less_scalar (Fin x) (Fin y) = (x < y)"
| "less_scalar NaN b = False"
| "less_scalar a NaN = False"
| "less_scalar a NInf = False"
| "less_scalar PInf b = False"
| "less_scalar a b = True"

fun less_eq_scalar :: "scalar \<Rightarrow> scalar \<Rightarrow> bool" where
  "less_eq_scalar (Fin x) (Fin y) = (x \<le> y)"
| "less_eq_scalar NaN b = False"
| "less_eq_scalar a NaN = False"
| "less_eq_scalar NInf b = True"
| "less_eq_scalar a PInf = True"
| "less_eq_scalar a b = False"

instance ..

end

text \<open>The operator \<^verbatim>\<open>!=\<close> of C++ on floating-point values: true when either side is NaN.\<close>

definition fp_ne :: "scalar \<Rightarrow> scalar \<Rightarrow> bool" where
  "fp_ne a b = (a = NaN \<or> b = NaN \<or> a \<noteq> b)"

text \<open>\<^verbatim>\<open>std::sqrt\<close>: NaN below zero.\<close>

fun fp_sqrt :: "scalar \<Rightarrow> scalar" where
  "fp_sqrt (Fin x) = (if x < 0 then NaN else Fin (sqrt x))"
| "fp_sqrt PInf = PInf"
| "fp_sqrt NInf = NaN"
| "fp_sqrt NaN = NaN"

text \<open>The conversion of an \<^verbatim>\<open>int64_t\<close> count to a floating-point operand.\<close>

definition of_count :: "int \<Rightarrow> scalar" where
  "of_count k = Fin (of_int k)"


section \<open>Tensors, optional tensors and failures\<close>

text \<open>
  A tensor is its shape, its elements in the order of \<^verbatim>\<open>data_ptr\<close>, and the two
  options the backend selection reads: the device and the element type. The views
  \<^verbatim>\<open>select(1, f)\<close> below are written for the standard (row-major) contiguous
  layout; strides are not modelled. An optional tensor (\<^verbatim>\<open>Tensor()\<close> when absent)
  is a \<^typ>\<open>'a option\<close>. Sizes and indices are \<^typ>\<open>nat\<close>: they are non-negative
  \<^verbatim>\<open>int64_t\<close> values far from overflow; the one subtraction on a count,
  \<^verbatim>\<open>n - 1\<close>, is done in \<^typ>\<open>int\<close>.
\<close>

datatype ScalarType = kByte | kHalf | kBFloat16 | kFloat | kDouble | Undefined

record tensor =
  sizes :: "nat list"
  data :: "scalar list"
  is_cuda :: bool
  scalar_type :: ScalarType

definition numel :: "tensor \<Rightarrow> nat" where
  "numel t = prod_list (sizes t)"

definition dim :: "tensor \<Rightarrow> nat" where
  "dim t = length (sizes t)"

text \<open>
  Every way a call of the source can fail: a \<^verbatim>\<open>TORCH_CHECK\<close> or \<^verbatim>\<open>AT_ERROR\<close> with its
  message, the check of \<^verbatim>\<open>check_dims_match_num_input_features\<close> with the argument
  name and the expected and actual counts, a \<^verbatim>\<open>TORCH_INTERNAL_ASSERT\<close>, the use of
  the data of an undefined tensor, an \<^verbatim>\<open>int64_t\<close> division by zero, and a dimension
  index outside the shape.
\<close>

datatype error =
    TorchCheck string
  | DimsMismatch string nat nat
  | InternalAssert string
  | UndefinedTensor
  | DivideByZero
  | DimOutOfRange

definition and_then :: "error + 'a \<Rightarrow> ('a \<Rightarrow> error + 'b) \<Rightarrow> error + 'b" where
  "and_then m k = (case m of Inl e \<Rightarrow> Inl e | Inr x \<Rightarrow> k x)"

text \<open>A loop over a list of indices whose body may fail: the first failure ends the call.\<close>

fun for_each :: "('i \<Rightarrow> 's \<Rightarrow> error + 's) \<Rightarrow> 'i list \<Rightarrow> 's \<Rightarrow> error + 's" where
  "for_each body [] s = Inr s"
| "for_each body (i # is) s = and_then (body i s) (for_each body is)"

text \<open>\<^verbatim>\<open>Tensor::size(d)\<close> for a non-negative \<open>d\<close>.\<close>

definition size_at :: "tensor \<Rightarrow> nat \<Rightarrow> error + nat" where
  "size_at t d = (if d < dim t then Inr (sizes t ! d) else Inl DimOutOfRange)"

text \<open>\<^verbatim>\<open>a / b\<close> on \<^verbatim>\<open>int64_t\<close> counts.\<close>

definition int_div :: "nat \<Rightarrow> nat \<Rightarrow> error + nat" where
  "int_div a b = (if b = 0 then Inl DivideByZero else Inr (a div b))"

text \<open>
  \<^verbatim>\<open>t.accessor<scalar_t, 1>()\<close> checks that the tensor has one dimension, and
  \<^verbatim>\<open>conditional_accessor_1d\<close> gives a null accessor for an undefined tensor. The
  accessor of a tensor is modelled as the tensor itself.
\<close>

definition accessor_1d :: "tensor \<Rightarrow> error + tensor" where
  "accessor_1d t =
     (if dim t = 1 then Inr t
      else Inl (TorchCheck ''expected 1 dims but tensor has a different number''))"

definition conditional_accessor_1d :: "tensor option \<Rightarrow> error + tensor option" where
  "conditional_accessor_1d t =
     (case t of
        None \<Rightarrow> Inr None
      | Some t' \<Rightarrow> and_then (accessor_1d t') (\<lambda>a. Inr (Some a)))"

text \<open>
  Reading and writing element \<open>f\<close> through an accessor. Using a null accessor is a
  failure. The source does not check \<open>f\<close> against the length; the theorems assume
  the lengths that keep every index in range.
\<close>

definition acc_write :: "tensor \<Rightarrow> nat \<Rightarrow> scalar \<Rightarrow> tensor" where
  "acc_write t f v = t\<lparr>data := (data t)[f := v]\<rparr>"

definition acc_get :: "tensor option \<Rightarrow> nat \<Rightarrow> error + scalar" where
  "acc_get a f = (case a of None \<Rightarrow> Inl UndefinedTensor | Some t \<Rightarrow> Inr (data t ! f))"

definition acc_set :: "tensor option \<Rightarrow> nat \<Rightarrow> scalar \<Rightarrow> error + tensor option" where
  "acc_set a f v =
     (case a of None \<Rightarrow> Inl UndefinedTensor | Some t \<Rightarrow> Inr (Some (acc_write t f v)))"

text \<open>
  \<^verbatim>\<open>at::empty\<close> leaves the memory uninitialised; the model fills it with NaN, so
  that an element read before it is written shows.
\<close>

definition uninit :: scalar where
  "uninit = NaN"

definition empty_like :: "tensor \<Rightarrow> tensor" where
  "empty_like t = t\<lparr>data := replicate (numel t) uninit\<rparr>"

text \<open>\<^verbatim>\<open>at::empty(sz, t.options())\<close> and a tensor of given elements with the options of \<open>t\<close>.\<close>

definition empty_sized :: "nat list \<Rightarrow> tensor \<Rightarrow> tensor" where
  "empty_sized sz t = t\<lparr>sizes := sz, data := replicate (prod_list sz) uninit\<rparr>"

definition vector_like :: "scalar list \<Rightarrow> tensor \<Rightarrow> tensor" where
  "vector_like xs t = t\<lparr>sizes := [length xs], data := xs\<rparr>"

definition empty_like_opt :: "tensor option \<Rightarrow> error + tensor" where
  "empty_like_opt t = (case t of None \<Rightarrow> Inl UndefinedTensor | Some t' \<Rightarrow> Inr (empty_like t'))"

subsection \<open>The view of one channel\<close>

text \<open>
  For a tensor of shape \<open>N # C # rest\<close> in the standard layout, element \<open>j\<close> of
  \<^verbatim>\<open>t.select(1, f)\<close> (in row-major order of the view) is at this offset of the data.
\<close>

definition chan_offset :: "nat list \<Rightarrow> nat \<Rightarrow> nat \<Rightarrow> nat" where
  "chan_offset sz f j =
     (let C = sz ! 1; S = prod_list (drop 2 sz)
      in (j div S) * (C * S) + f * S + j mod S)"

definition chan_count :: "nat list \<Rightarrow> nat" where
  "chan_count sz = sz ! 0 * prod_list (drop 2 sz)"

definition select1 :: "tensor \<Rightarrow> nat \<Rightarrow> scalar list" where
  "select1 t f = map (\<lambda>j. data t ! chan_offset (sizes t) f j) [0..<chan_count (sizes t)]"

text \<open>Writing the elements of the view \<^verbatim>\<open>select(1, f)\<close>, one after the other.\<close>

definition select1_write :: "tensor \<Rightarrow> nat \<Rightarrow> scalar list \<Rightarrow> tensor" where
  "select1_write t f vals =
     t\<lparr>data := fold (\<lambda>j d. d[chan_offset (sizes t) f j := vals ! j]) [0..<length vals] (data t)\<rparr>"

text \<open>A serial accumulation \<^verbatim>\<open>acc += x\<close> over a list, from 0.\<close>

definition fsum :: "scalar list \<Rightarrow> scalar" where
  "fsum xs = fold (\<lambda>x acc. acc + x) xs (Fin 0)"

text \<open>
  Modelled from the spec: \<^verbatim>\<open>at::sum(t, reduce_dims)\<close> and \<^verbatim>\<open>at::mean(t, reduce_dims)\<close>
  are reductions of ATen that are not in this file. With \<open>reduce_dims\<close> every axis
  but axis 1 they return, per channel, the sum of the channel's elements and that
  sum divided by the number of elements of the channel.
\<close>

definition at_sum :: "tensor \<Rightarrow> scalar list" where
  "at_sum t = map (\<lambda>f. fsum (select1 t f)) [0..<sizes t ! 1]"

definition at_mean :: "tensor \<Rightarrow> scalar list" where
  "at_mean t =
     map (\<lambda>f. fsum (select1 t f) / of_count (int (chan_count (sizes t)))) [0..<sizes t ! 1]"

section \<open>The variance transforms\<close>

text \<open>\<^verbatim>\<open>struct InvStd\<close> and \<^verbatim>\<open>struct Var\<close>.\<close>

definition InvStd :: "scalar \<Rightarrow> scalar \<Rightarrow> scalar" where
  "InvStd var epsilon =
     (if fp_ne var (Fin 0) \<or> fp_ne epsilon (Fin 0)
      then Fin 1 / fp_sqrt (var + epsilon)
      else Fin 0)"

definition Var :: "scalar \<Rightarrow> scalar \<Rightarrow> scalar" where
  "Var var epsilon = var"


section \<open>Batch statistics: \<^verbatim>\<open>batch_norm_cpu_update_stats_template\<close>\<close>

record stats_state =
  st_save_var_transform :: tensor
  st_running_mean :: "tensor option"
  st_running_var :: "tensor option"

text \<open>The body of the loop over the channels \<open>f\<close>.\<close>

definition update_stats_channel ::
  "(scalar \<Rightarrow> scalar \<Rightarrow> scalar) \<Rightarrow> tensor \<Rightarrow> tensor \<Rightarrow> scalar \<Rightarrow> scalar \<Rightarrow> nat \<Rightarrow>
   nat \<Rightarrow> stats_state \<Rightarrow> stats_state" where
  "update_stats_channel VarTransform input save_mean momentum eps n f st =
     (let inp = select1 input f;
          mean = data save_mean ! f;
          var_sum = fold (\<lambda>i acc. acc + (i - mean) * (i - mean)) inp (Fin 0);
          st1 = st\<lparr>st_save_var_transform :=
                     acc_write (st_save_var_transform st) f
                       (VarTransform (var_sum / of_count (int n)) eps)\<rparr>;
          st2 = (case st_running_mean st1 of
                   None \<Rightarrow> st1
                 | Some rm \<Rightarrow>
                     st1\<lparr>st_running_mean :=
                           Some (acc_write rm f
                                  (momentum * mean + (Fin 1 - momentum) * (data rm ! f)))\<rparr>)
      in (case st_running_var st2 of
            None \<Rightarrow> st2
          | Some rv \<Rightarrow>
              (let unbiased_var = var_sum / of_count (int n - 1)
               in st2\<lparr>st_running_var :=
                        Some (acc_write rv f
                               (momentum * unbiased_var + (Fin 1 - momentum) * (data rv ! f)))\<rparr>)))"

text \<open>
  The result is the pair \<open>(save_mean, save_var_transform)\<close> the source returns,
  together with the running statistics, which the source updates in place.
\<close>

record stats_result =
  res_save_mean :: tensor
  res_save_var_transform :: tensor
  res_running_mean :: "tensor option"
  res_running_var :: "tensor option"

definition batch_norm_cpu_update_stats_template ::
  "(scalar \<Rightarrow> scalar \<Rightarrow> scalar) \<Rightarrow> tensor \<Rightarrow> tensor option \<Rightarrow> tensor option \<Rightarrow> scalar \<Rightarrow>
   scalar \<Rightarrow> error + stats_result" where
  "batch_norm_cpu_update_stats_template VarTransform input running_mean running_var momentum eps =
     and_then (size_at input 1) (\<lambda>n_input.
     and_then (int_div (numel input) n_input) (\<lambda>n.
     (let save_mean = vector_like (at_mean input) input;
          save_var_transform0 = empty_sized [n_input] input
      in and_then (conditional_accessor_1d running_mean) (\<lambda>running_mean_a.
         and_then (conditional_accessor_1d running_var) (\<lambda>running_var_a.
         (let st = fold (update_stats_channel VarTransform input save_mean momentum eps n)
                     [0..<n_input]
                     \<lparr>st_save_var_transform = save_var_transform0,
                      st_running_mean = running_mean_a,
                      st_running_var = running_var_a\<rparr>
          in Inr \<lparr>res_save_mean = save_mean,
                  res_save_var_transform = st_save_var_transform st,
                  res_running_mean = st_running_mean st,
                  res_running_var = st_running_var st\<rparr>))))))"

text \<open>
  \<^verbatim>\<open>batch_norm_update_stats_cpu\<close>, the standalone entry point, for every floating
  type of \<^verbatim>\<open>AT_DISPATCH_FLOATING_TYPES\<close>.
\<close>

definition batch_norm_update_stats_cpu ::
  "tensor \<Rightarrow> tensor option \<Rightarrow> tensor option \<Rightarrow> scalar \<Rightarrow> error + stats_result" where
  "batch_norm_update_stats_cpu self running_mean_opt running_var_opt momentum =
     batch_norm_cpu_update_stats_template Var self running_mean_opt running_var_opt momentum (Fin 0)"


section \<open>The fused inference coefficients\<close>

text \<open>
  \<^verbatim>\<open>batch_norm_cpu_inference_collect_linear_and_constant_terms\<close> fills the arrays
  \<open>alpha\<close> and \<open>beta\<close>, one channel \<open>c\<close> after the other.
\<close>

definition collect_channel ::
  "tensor option \<Rightarrow> tensor option \<Rightarrow> tensor \<Rightarrow> tensor \<Rightarrow> scalar \<Rightarrow> nat \<Rightarrow>
   scalar list \<times> scalar list \<Rightarrow> scalar list \<times> scalar list" where
  "collect_channel weight bias mean variance eps c ab =
     (let inv_var = Fin 1 / fp_sqrt (data variance ! c + eps);
          weight_v = (case weight of None \<Rightarrow> Fin 1 | Some wt \<Rightarrow> data wt ! c);
          bias_v = (case bias of None \<Rightarrow> Fin 0 | Some bt \<Rightarrow> data bt ! c)
      in ((fst ab)[c := inv_var * weight_v],
          (snd ab)[c := bias_v - data mean ! c * inv_var * weight_v]))"

definition batch_norm_cpu_inference_collect_linear_and_constant_terms ::
  "scalar list \<Rightarrow> scalar list \<Rightarrow> nat \<Rightarrow> tensor option \<Rightarrow> tensor option \<Rightarrow> tensor \<Rightarrow> tensor \<Rightarrow>
   scalar \<Rightarrow> scalar list \<times> scalar list" where
  "batch_norm_cpu_inference_collect_linear_and_constant_terms alpha beta n_channel weight bias
       mean variance eps =
     fold (collect_channel weight bias mean variance eps) [0..<n_channel] (alpha, beta)"

text \<open>
  \<^verbatim>\<open>batch_norm_cpu_inference_channels_last\<close>. Here the data of \<open>input\<close> and \<open>output\<close>
  are in channels-last order, as the offsets of the source read and write them.
\<close>

definition batch_norm_cpu_inference_channels_last ::
  "tensor \<Rightarrow> tensor \<Rightarrow> tensor option \<Rightarrow> tensor option \<Rightarrow> tensor \<Rightarrow> tensor \<Rightarrow> scalar \<Rightarrow>
   error + tensor" where
  "batch_norm_cpu_inference_channels_last output input weight bias mean variance eps =
     and_then (size_at input 0) (\<lambda>n_batch.
     and_then (size_at input 1) (\<lambda>n_channel.
     and_then (int_div (numel input) n_batch) (\<lambda>q.
     and_then (int_div q n_channel) (\<lambda>image_size.
     (let input_data = data input;
          ab = batch_norm_cpu_inference_collect_linear_and_constant_terms
                 (data (empty_like mean)) (data (empty_like mean)) n_channel weight bias
                 mean variance eps;
          alpha_data = fst ab;
          beta_data = snd ab
      in Inr (output\<lparr>data :=
           (if n_channel \<noteq> 1 then
              fold (\<lambda>n. fold (\<lambda>i. fold (\<lambda>c out.
                  (let offset = n * image_size * n_channel + i * n_channel + c
                   in out[offset := input_data ! offset * alpha_data ! c + beta_data ! c]))
                [0..<n_channel]) [0..<image_size]) [0..<n_batch] (data output)
            else
              fold (\<lambda>n. fold (\<lambda>i out.
                  (let offset = n * image_size + i
                   in out[offset := input_data ! offset * alpha_data ! 0 + beta_data ! 0]))
                [0..<image_size]) [0..<n_batch] (data output))\<rparr>))))))"

section \<open>Gradients: \<^verbatim>\<open>batch_norm_backward_cpu_template\<close>\<close>

record grads =
  grad_input :: "tensor option"
  grad_weight :: "tensor option"
  grad_bias :: "tensor option"

text \<open>
  The writes to \<open>grad_in\<close>, the view of channel \<open>f\<close> of \<open>grad_input\<close>. In training
  mode the first kernel stores \<open>(i - mean) * k\<close> and the second one reads it back.
\<close>

definition backward_grad_in ::
  "tensor \<Rightarrow> scalar list \<Rightarrow> scalar list \<Rightarrow> tensor \<Rightarrow> bool \<Rightarrow> nat \<Rightarrow> nat \<Rightarrow>
   scalar \<Rightarrow> scalar \<Rightarrow> scalar \<Rightarrow> scalar \<Rightarrow> tensor" where
  "backward_grad_in gi inp grad_out sum_a train n f w mean invstd dotp =
     (if train then
        (let k = dotp * invstd * invstd / of_count (int n);
             gi1 = select1_write gi f (map (\<lambda>i. (i - mean) * k) inp);
             grad_mean = data sum_a ! f / of_count (int n)
         in select1_write gi1 f
              (map (\<lambda>(g, go). (go - grad_mean - g) * invstd * w) (zip (select1 gi1 f) grad_out)))
      else select1_write gi f (map (\<lambda>i. i * invstd * w) grad_out))"

text \<open>The body of the loop over the channels \<open>f\<close>.\<close>

definition backward_channel ::
  "tensor \<Rightarrow> tensor \<Rightarrow> tensor option \<Rightarrow> tensor option \<Rightarrow> tensor option \<Rightarrow> tensor option \<Rightarrow>
   tensor option \<Rightarrow> tensor \<Rightarrow> bool \<Rightarrow> scalar \<Rightarrow> bool \<times> bool \<times> bool \<Rightarrow> nat \<Rightarrow>
   nat \<Rightarrow> grads \<Rightarrow> error + grads" where
  "backward_channel grad_out0 input weight_a running_mean_a running_var_a save_mean_a
       save_invstd_a sum_a train eps grad_input_mask n f g =
     (let inp = select1 input f;
          grad_out = select1 grad_out0 f;
          w = (case weight_a of None \<Rightarrow> Fin 1 | Some wt \<Rightarrow> data wt ! f)
      in and_then
           (if train then
              and_then (acc_get save_mean_a f) (\<lambda>m.
              and_then (acc_get save_invstd_a f) (\<lambda>s. Inr (m, s)))
            else
              and_then (acc_get running_mean_a f) (\<lambda>m.
              and_then (acc_get running_var_a f) (\<lambda>v. Inr (m, Fin 1 / fp_sqrt (v + eps)))))
           (\<lambda>(mean, invstd).
      (let dotp = fold (\<lambda>(i, go) acc. acc + (i - mean) * go) (zip inp grad_out) (Fin 0)
       in and_then
            (if fst grad_input_mask then
               (case grad_input g of
                  None \<Rightarrow> Inl UndefinedTensor
                | Some gi \<Rightarrow>
                    Inr (g\<lparr>grad_input :=
                            Some (backward_grad_in gi inp grad_out sum_a train n f w mean
                                    invstd dotp)\<rparr>))
             else Inr g)
            (\<lambda>g1.
       and_then
            (if fst (snd grad_input_mask) then
               and_then (acc_set (grad_weight g1) f (dotp * invstd))
                 (\<lambda>gw. Inr (g1\<lparr>grad_weight := gw\<rparr>))
             else Inr g1)
            (\<lambda>g2.
            (if snd (snd grad_input_mask) then
               and_then (acc_set (grad_bias g2) f (data sum_a ! f))
                 (\<lambda>gb. Inr (g2\<lparr>grad_bias := gb\<rparr>))
             else Inr g2))))))"

definition batch_norm_backward_cpu_template ::
  "tensor \<Rightarrow> tensor \<Rightarrow> tensor option \<Rightarrow> tensor option \<Rightarrow> tensor option \<Rightarrow> tensor option \<Rightarrow>
   tensor option \<Rightarrow> bool \<Rightarrow> scalar \<Rightarrow> bool \<times> bool \<times> bool \<Rightarrow> error + grads" where
  "batch_norm_backward_cpu_template grad_out0 input weight running_mean running_var save_mean
       save_invstd train eps grad_input_mask =
     (let grad_input0 = (if fst grad_input_mask then Some (empty_like input) else None)
      in and_then (if fst (snd grad_input_mask)
                   then and_then (empty_like_opt weight) (\<lambda>t. Inr (Some t)) else Inr None)
           (\<lambda>grad_weight0.
         and_then (if snd (snd grad_input_mask)
                   then and_then (empty_like_opt weight) (\<lambda>t. Inr (Some t)) else Inr None)
           (\<lambda>grad_bias0.
         and_then (conditional_accessor_1d weight) (\<lambda>weight_a.
         and_then (conditional_accessor_1d grad_weight0) (\<lambda>grad_weight_a.
         and_then (conditional_accessor_1d grad_bias0) (\<lambda>grad_bias_a.
         and_then (size_at input 1) (\<lambda>n_input.
         and_then (int_div (numel input) n_input) (\<lambda>n.
         and_then (conditional_accessor_1d save_mean) (\<lambda>save_mean_a.
         and_then (conditional_accessor_1d save_invstd) (\<lambda>save_invstd_a.
         and_then (conditional_accessor_1d running_mean) (\<lambda>running_mean_a.
         and_then (conditional_accessor_1d running_var) (\<lambda>running_var_a.
         (let sum_a = vector_like (at_sum grad_out0) grad_out0
          in for_each
               (backward_channel grad_out0 input weight_a running_mean_a running_var_a
                  save_mean_a save_invstd_a sum_a train eps grad_input_mask n)
               [0..<n_input]
               \<lparr>grad_input = grad_input0, grad_weight = grad_weight_a,
                grad_bias = grad_bias_a\<rparr>)))))))))))))"

text \<open>\<^verbatim>\<open>batch_norm_backward_cpu\<close>, for every floating type of the dispatch.\<close>

definition batch_norm_backward_cpu ::
  "tensor \<Rightarrow> tensor \<Rightarrow> tensor option \<Rightarrow> tensor option \<Rightarrow> tensor option \<Rightarrow> tensor option \<Rightarrow>
   tensor option \<Rightarrow> bool \<Rightarrow> scalar \<Rightarrow> bool \<times> bool \<times> bool \<Rightarrow> error + grads" where
  "batch_norm_backward_cpu grad_out self weight_opt running_mean_opt running_var_opt save_mean_opt
       save_invstd_opt train eps grad_input_mask =
     batch_norm_backward_cpu_template grad_out self weight_opt running_mean_opt running_var_opt
       save_mean_opt save_invstd_opt train eps grad_input_mask"


section \<open>Backend selection\<close>

text \<open>
  The answers of \<^verbatim>\<open>detail::getCUDAHooks()\<close> that the selection reads, and the three
  implementations it can delegate to. The accelerated implementations and the
  dispatcher \<^verbatim>\<open>at::native_batch_norm\<close> are not part of this file: they are
  parameters. Each of them may fail and may update the running statistics, so it
  returns its result (or the failure) together with the running statistics after
  the call. \<^verbatim>\<open>contiguous()\<close> does not change the elements of a tensor and is the
  identity here.
\<close>

record CUDAHooks =
  compiledWithCuDNN :: bool
  batchnormMinEpsilonCuDNN :: scalar
  versionCuDNN :: int
  compiledWithMIOpen :: bool

type_synonym running_stats = "tensor option \<times> tensor option"

type_synonym 'a with_stats = "(error + 'a) \<times> running_stats"

type_synonym forward3 =
  "tensor \<Rightarrow> tensor option \<Rightarrow> tensor option \<Rightarrow> tensor option \<Rightarrow> tensor option \<Rightarrow> bool \<Rightarrow>
   scalar \<Rightarrow> scalar \<Rightarrow> (tensor \<times> tensor option \<times> tensor option) with_stats"

type_synonym forward4 =
  "tensor \<Rightarrow> tensor option \<Rightarrow> tensor option \<Rightarrow> tensor option \<Rightarrow> tensor option \<Rightarrow> bool \<Rightarrow>
   scalar \<Rightarrow> scalar \<Rightarrow> (tensor \<times> tensor option \<times> tensor option \<times> tensor) with_stats"

record forward_backends =
  cudnn_batch_norm :: forward4
  miopen_batch_norm :: forward3
  native_batch_norm :: forward3

definition MIOPEN_DIM_MAX :: nat where
  "MIOPEN_DIM_MAX = 5"

definition check_dims_match_num_input_features :: "string \<Rightarrow> nat \<Rightarrow> nat \<Rightarrow> error + unit" where
  "check_dims_match_num_input_features arg_name expected actual =
     (if actual = expected then Inr () else Inl (DimsMismatch arg_name expected actual))"

text \<open>\<^verbatim>\<open>t.scalar_type()\<close> of an optional tensor.\<close>

definition scalar_type_of :: "tensor option \<Rightarrow> ScalarType" where
  "scalar_type_of t = (case t of None \<Rightarrow> Undefined | Some t' \<Rightarrow> scalar_type t')"

text \<open>
  \<^verbatim>\<open>_batch_norm_impl_index\<close>. The last component of the result is the index of the
  implementation that ran.
\<close>

definition batch_norm_impl_index ::
  "forward_backends \<Rightarrow> CUDAHooks \<Rightarrow> tensor \<Rightarrow> tensor option \<Rightarrow> tensor option \<Rightarrow> tensor option \<Rightarrow>
   tensor option \<Rightarrow> bool \<Rightarrow> scalar \<Rightarrow> scalar \<Rightarrow> bool \<Rightarrow>
   (tensor \<times> tensor option \<times> tensor option \<times> tensor \<times> int) with_stats" where
  "batch_norm_impl_index B H input weight bias running_mean running_var training momentum eps
       cudnn_enabled =
     (let num_features = sizes input ! 1
      in case
           and_then
             (case running_mean of
                Some t \<Rightarrow> check_dims_match_num_input_features ''running_mean'' num_features (numel t)
              | None \<Rightarrow>
                  if \<not> training
                  then Inl (TorchCheck ''running_mean must be defined in evaluation mode'')
                  else Inr ())
             (\<lambda>_.
           and_then
             (case running_var of
                Some t \<Rightarrow> check_dims_match_num_input_features ''running_var'' num_features (numel t)
              | None \<Rightarrow>
                  if \<not> training
                  then Inl (TorchCheck ''running_var must be defined in evaluation mode'')
                  else Inr ())
             (\<lambda>_.
           and_then
             (case weight of
                Some t \<Rightarrow> check_dims_match_num_input_features ''weight'' num_features (numel t)
              | None \<Rightarrow> Inr ())
             (\<lambda>_.
             (case bias of
                Some t \<Rightarrow> check_dims_match_num_input_features ''bias'' num_features (numel t)
              | None \<Rightarrow> Inr ()))))
         of
           Inl e \<Rightarrow> (Inl e, running_mean, running_var)
         | Inr _ \<Rightarrow>
             (let use_cudnn =
                    (is_cuda input
                     \<and> scalar_type input \<noteq> kBFloat16 \<and> scalar_type_of weight \<noteq> kBFloat16
                     \<and> (scalar_type input \<noteq> kHalf \<or> scalar_type_of weight = kFloat)
                     \<and> weight \<noteq> None \<and> bias \<noteq> None
                     \<and> ((running_mean \<noteq> None \<and> running_var \<noteq> None)
                        \<or> (running_mean = None \<and> running_var = None \<and> training))
                     \<and> dim input \<ge> 3
                     \<and> ((sizes input ! 0 \<le> 880801 \<and> training)
                        \<or> (sizes input ! 0 \<le> 65535 \<and> \<not> training))
                     \<and> compiledWithCuDNN H
                     \<and> batchnormMinEpsilonCuDNN H \<le> eps
                     \<and> cudnn_enabled \<and> versionCuDNN H \<ge> 5110)
              in if use_cudnn then
                   (case cudnn_batch_norm B input weight bias running_mean running_var
                           training momentum eps of
                      (Inl e, st) \<Rightarrow> (Inl e, st)
                    | (Inr (output, save_mean, save_var, reserve), st) \<Rightarrow>
                        (Inr (output, save_mean, save_var, reserve, 1), st))
                 else
                   (let reserve = input\<lparr>sizes := [0], data := [], scalar_type := kByte\<rparr>;
                        use_miopen =
                          (is_cuda input
                           \<and> dim input \<le> MIOPEN_DIM_MAX
                           \<and> scalar_type input \<noteq> kDouble
                           \<and> scalar_type input \<noteq> kBFloat16
                           \<and> scalar_type_of weight \<noteq> kHalf
                           \<and> weight \<noteq> None \<and> bias \<noteq> None
                           \<and> ((running_mean \<noteq> None \<and> running_var \<noteq> None)
                              \<or> (running_mean = None \<and> running_var = None \<and> training))
                           \<and> compiledWithMIOpen H
                           \<and> cudnn_enabled)
                    in if use_miopen then
                         (case miopen_batch_norm B input weight bias running_mean running_var
                                 training momentum eps of
                            (Inl e, st) \<Rightarrow> (Inl e, st)
                          | (Inr (output, save_mean, save_var), st) \<Rightarrow>
                              (Inr (output, save_mean, save_var, reserve, 2), st))
                       else
                         (case native_batch_norm B input weight bias running_mean running_var
                                 training momentum eps of
                            (Inl e, st) \<Rightarrow> (Inl e, st)
                          | (Inr (output, save_mean, save_var), st) \<Rightarrow>
                              (Inr (output, save_mean, save_var, reserve, 0), st)))))"

text \<open>
  \<^verbatim>\<open>_batch_norm_impl_index_backward\<close>, with the three backward implementations as
  parameters, each with the arguments in the order the source passes them.
\<close>

record backward_backends =
  native_batch_norm_backward ::
    "tensor \<Rightarrow> tensor \<Rightarrow> tensor option \<Rightarrow> tensor option \<Rightarrow> tensor option \<Rightarrow> tensor option \<Rightarrow>
     tensor option \<Rightarrow> bool \<Rightarrow> scalar \<Rightarrow> bool \<times> bool \<times> bool \<Rightarrow> error + grads"
  cudnn_batch_norm_backward ::
    "tensor \<Rightarrow> tensor \<Rightarrow> tensor option \<Rightarrow> tensor option \<Rightarrow> tensor option \<Rightarrow> tensor option \<Rightarrow>
     tensor option \<Rightarrow> scalar \<Rightarrow> tensor \<Rightarrow> error + grads"
  miopen_batch_norm_backward ::
    "tensor \<Rightarrow> tensor \<Rightarrow> tensor option \<Rightarrow> tensor option \<Rightarrow> tensor option \<Rightarrow> tensor option \<Rightarrow>
     tensor option \<Rightarrow> scalar \<Rightarrow> error + grads"

definition batch_norm_impl_index_backward ::
  "backward_backends \<Rightarrow> int \<Rightarrow> tensor \<Rightarrow> tensor \<Rightarrow> tensor option \<Rightarrow> tensor option \<Rightarrow>
   tensor option \<Rightarrow> tensor option \<Rightarrow> tensor option \<Rightarrow> bool \<Rightarrow> scalar \<Rightarrow> bool \<times> bool \<times> bool \<Rightarrow>
   tensor \<Rightarrow> error + grads" where
  "batch_norm_impl_index_backward B impl_index input grad_output weight running_mean running_var
       save_mean save_var_transform train epsilon output_mask reservedSpace =
     (if impl_index = 0 then
        native_batch_norm_backward B grad_output input weight running_mean running_var
          save_mean save_var_transform train epsilon output_mask
      else if impl_index = 1 then
        cudnn_batch_norm_backward B input grad_output weight running_mean running_var
          save_mean save_var_transform epsilon reservedSpace
      else if impl_index = 2 then
        miopen_batch_norm_backward B input grad_output weight running_mean running_var
          save_mean save_var_transform epsilon
      else Inl (InternalAssert ''Unsupported impl_index in _batch_norm_impl_index_backward''))"

section \<open>The checks of \<^verbatim>\<open>renorm\<close>\<close>

text \<open>
  Modelled from the spec: \<^verbatim>\<open>c10::Scalar\<close> is not part of this file. A scalar argument
  is a floating-point number, an integer, a boolean or a complex number;
  \<^verbatim>\<open>toDouble\<close> is used on real-valued scalars only, after the check of \<^verbatim>\<open>isComplex\<close>.
\<close>

datatype Scalar =
    ScalarDouble scalar
  | ScalarInt int
  | ScalarBool bool
  | ScalarComplex scalar scalar

fun isComplex :: "Scalar \<Rightarrow> bool" where
  "isComplex (ScalarComplex re im) = True"
| "isComplex s = False"

fun toDouble :: "Scalar \<Rightarrow> scalar" where
  "toDouble (ScalarDouble d) = d"
| "toDouble (ScalarInt i) = Fin (of_int i)"
| "toDouble (ScalarBool b) = Fin (if b then 1 else 0)"
| "toDouble (ScalarComplex re im) = re"

text \<open>
  \<^verbatim>\<open>TORCH_META_FUNC(renorm)\<close>: the checks, in the order of the source, then
  \<^verbatim>\<open>set_output\<close> with the sizes of the input. The argument \<open>dim\<close> is not used here.
\<close>

definition renorm_meta :: "tensor \<Rightarrow> Scalar \<Rightarrow> int \<Rightarrow> Scalar \<Rightarrow> error + nat list" where
  "renorm_meta self p d maxnorm =
     (if isComplex p then Inl (TorchCheck ''renorm: p must be real-valued'')
      else if \<not> (Fin 0 < toDouble p)
        then Inl (TorchCheck ''renorm: non-positive-norm not supported'')
      else if isComplex maxnorm then Inl (TorchCheck ''renorm: maxnorm must be real-valued'')
      else if \<not> (Fin 0 \<le> toDouble maxnorm)
        then Inl (TorchCheck ''renorm: expected maxnorm to be >= 0'')
      else if \<not> (1 < dim self)
        then Inl (TorchCheck ''renorm: input needs at least 2 dimensions'')
      else Inr (sizes self))"


section \<open>Notions used in the statements\<close>

text \<open>
  The arguments that \<^verbatim>\<open>_batch_norm_impl_index\<close> has to reject: an optional
  per-channel tensor whose element count differs from \<open>input.sizes()[1]\<close>, or
  evaluation mode without both running statistics.
\<close>

definition count_differs :: "tensor \<Rightarrow> tensor option \<Rightarrow> bool" where
  "count_differs input t = (case t of None \<Rightarrow> False | Some t' \<Rightarrow> numel t' \<noteq> sizes input ! 1)"

definition args_rejected ::
  "tensor \<Rightarrow> tensor option \<Rightarrow> tensor option \<Rightarrow> tensor option \<Rightarrow> tensor option \<Rightarrow> bool \<Rightarrow> bool" where
  "args_rejected input weight bias running_mean running_var training \<longleftrightarrow>
     count_differs input weight \<or> count_differs input bias
     \<or> count_differs input running_mean \<or> count_differs input running_var
     \<or> (\<not> training \<and> (running_mean = None \<or> running_var = None))"

text \<open>
  The arguments that the checks of \<^verbatim>\<open>renorm\<close> reject. A NaN is neither positive nor
  non-negative, so it is rejected as well.
\<close>

definition renorm_rejects :: "tensor \<Rightarrow> Scalar \<Rightarrow> Scalar \<Rightarrow> bool" where
  "renorm_rejects self p maxnorm \<longleftrightarrow>
     isComplex p \<or> toDouble p \<le> Fin 0 \<or> toDouble p = NaN
     \<or> isComplex maxnorm \<or> toDouble maxnorm < Fin 0 \<or> toDouble maxnorm = NaN
     \<or> dim self < 2"

text \<open>
  Well-formed arguments: an input with at least two axes, at least one channel and
  one element of data per index, and per-channel vectors of \<open>C\<close> elements. These
  are the shapes for which every index the kernels use is in range.
\<close>

definition wf_input :: "tensor \<Rightarrow> bool" where
  "wf_input t \<longleftrightarrow> 2 \<le> dim t \<and> 0 < sizes t ! 1 \<and> length (data t) = numel t"

definition is_vector :: "nat \<Rightarrow> tensor \<Rightarrow> bool" where
  "is_vector C t \<longleftrightarrow> sizes t = [C] \<and> length (data t) = C"

definition opt_vector :: "nat \<Rightarrow> tensor option \<Rightarrow> bool" where
  "opt_vector C t = (case t of None \<Rightarrow> True | Some t' \<Rightarrow> is_vector C t')"

text \<open>
  The statistics of channel \<open>c\<close> of a batch: the mean over every axis but the
  channel axis, and the sum of the squared deviations from it.
\<close>

definition batch_mean :: "tensor \<Rightarrow> nat \<Rightarrow> scalar" where
  "batch_mean input c = fsum (select1 input c) / of_count (int (chan_count (sizes input)))"

definition var_sum :: "tensor \<Rightarrow> nat \<Rightarrow> scalar" where
  "var_sum input c =
     fsum (map (\<lambda>x. (x - batch_mean input c) * (x - batch_mean input c)) (select1 input c))"

text \<open>
  The two reductions of the backward pass over channel \<open>c\<close>: the sum of the output
  gradient, and the dot product of the centred input with the output gradient. The
  weight of a channel is 1 when there is no weight.
\<close>

definition chan_sum :: "tensor \<Rightarrow> nat \<Rightarrow> scalar" where
  "chan_sum t c = fsum (select1 t c)"

definition chan_dotp :: "tensor \<Rightarrow> tensor \<Rightarrow> scalar \<Rightarrow> nat \<Rightarrow> scalar" where
  "chan_dotp input grad_out mean c =
     fsum (map (\<lambda>(x, go). (x - mean) * go) (zip (select1 input c) (select1 grad_out c)))"

definition weight_at :: "tensor option \<Rightarrow> nat \<Rightarrow> scalar" where
  "weight_at weight c = (case weight of None \<Rightarrow> Fin 1 | Some wt \<Rightarrow> data wt ! c)"

text \<open>
  The inverse standard deviation the backward pass uses for channel \<open>c\<close>: the saved
  one in training mode, and \<open>1 / sqrt (running_var + eps)\<close> in evaluation mode.
\<close>

definition stat_invstd :: "bool \<Rightarrow> scalar \<Rightarrow> tensor \<Rightarrow> nat \<Rightarrow> scalar" where
  "stat_invstd train eps vt c =
     (if train then data vt ! c else Fin 1 / fp_sqrt (data vt ! c + eps))"

text \<open>The gradient of one element of the input, as the spec gives it for the two modes.\<close>

definition grad_input_formula ::
  "bool \<Rightarrow> scalar \<Rightarrow> scalar \<Rightarrow> scalar \<Rightarrow> scalar \<Rightarrow> scalar \<Rightarrow> scalar \<Rightarrow> scalar \<Rightarrow> scalar \<Rightarrow> scalar" where
  "grad_input_formula train go x sm dotp n mean invstd w =
     (if train then ((go - sm / n) - (x - mean) * (dotp * invstd * invstd / n)) * invstd * w
      else go * invstd * w)"

text \<open>
  What the loop of the backward pass has established after the first \<open>m\<close> channels:
  the selected gradients exist with the right shapes, and hold the values of the
  spec in the channels below \<open>m\<close>.
\<close>

definition backward_post ::
  "tensor \<Rightarrow> tensor \<Rightarrow> tensor option \<Rightarrow> tensor \<Rightarrow> tensor \<Rightarrow> bool \<Rightarrow> scalar \<Rightarrow> bool \<times> bool \<times> bool \<Rightarrow>
   nat \<Rightarrow> grads \<Rightarrow> bool" where
  "backward_post grad_out input weight mt vt train eps gmask m g \<longleftrightarrow>
     (if fst gmask then
        (\<exists>gi. grad_input g = Some gi \<and> sizes gi = sizes input
           \<and> length (data gi) = numel input
           \<and> (\<forall>c<m. select1 gi c =
                 map (\<lambda>(x, go). grad_input_formula train go x (chan_sum grad_out c)
                        (chan_dotp input grad_out (data mt ! c) c)
                        (of_count (int (chan_count (sizes input))))
                        (data mt ! c) (stat_invstd train eps vt c) (weight_at weight c))
                   (zip (select1 input c) (select1 grad_out c))))
      else grad_input g = None)
     \<and> (if fst (snd gmask) then
          (\<exists>gw. grad_weight g = Some gw \<and> is_vector (sizes input ! 1) gw
             \<and> (\<forall>c<m. data gw ! c
                         = chan_dotp input grad_out (data mt ! c) c * stat_invstd train eps vt c))
        else grad_weight g = None)
     \<and> (if snd (snd gmask) then
          (\<exists>gb. grad_bias g = Some gb \<and> is_vector (sizes input ! 1) gb
             \<and> (\<forall>c<m. data gb ! c = chan_sum grad_out c))
        else grad_bias g = None)"

text \<open>
  The bias of a channel, 0 when there is no bias, and the inverse standard deviation
  \<open>1 / sqrt (var + eps)\<close> of a channel as the inference paths compute it.
\<close>

definition bias_at :: "tensor option \<Rightarrow> nat \<Rightarrow> scalar" where
  "bias_at bias c = (case bias of None \<Rightarrow> Fin 0 | Some bt \<Rightarrow> data bt ! c)"

definition inv_var_at :: "tensor \<Rightarrow> scalar \<Rightarrow> nat \<Rightarrow> scalar" where
  "inv_var_at variance eps c = Fin 1 / fp_sqrt (data variance ! c + eps)"

text \<open>The blend of a batch statistic into a running statistic.\<close>

definition blend :: "scalar \<Rightarrow> scalar \<Rightarrow> scalar \<Rightarrow> scalar" where
  "blend momentum batch old = momentum * batch + (Fin 1 - momentum) * old"

text \<open>Finite CPU tensors of floats, for the examples.\<close>

definition tens :: "nat list \<Rightarrow> real list \<Rightarrow> tensor" where
  "tens sz xs = \<lparr>sizes = sz, data = map Fin xs, is_cuda = False, scalar_type = kFloat\<rparr>"

definition vec :: "real list \<Rightarrow> tensor" where
  "vec xs = tens [length xs] xs"

text \<open>Backward implementations for the examples: the CPU kernel and two that only fail.\<close>

definition example_backward :: backward_backends where
  "example_backward =
     \<lparr>native_batch_norm_backward = batch_norm_backward_cpu,
      cudnn_batch_norm_backward = (\<lambda>i g w rm rv sm sv e r. Inl (TorchCheck ''no cuDNN'')),
      miopen_batch_norm_backward = (\<lambda>i g w rm rv sm sv e. Inl (TorchCheck ''no MIOpen''))\<rparr>"

section \<open>Basic facts\<close>

lemma and_then_Inr [simp]: "and_then (Inr x) k = k x"
  by (simp add: and_then_def)

lemma and_then_Inl [simp]: "and_then (Inl e) k = Inl e"
  by (simp add: and_then_def)

lemma fp_ne_zero: "fp_ne a (Fin 0) \<longleftrightarrow> a \<noteq> Fin 0"
  by (auto simp: fp_ne_def)

lemma not_pos_iff: "\<not> (Fin 0 < x) \<longleftrightarrow> x \<le> Fin 0 \<or> x = NaN"
  by (cases x) auto

lemma not_nonneg_iff: "\<not> (Fin 0 \<le> x) \<longleftrightarrow> x < Fin 0 \<or> x = NaN"
  by (cases x) auto

section \<open>The variance transforms (C4)\<close>

text \<open>
  C4, as stated: for every variance and epsilon, \<open>InvStd\<close> returns
  \<open>1 / sqrt (var + eps)\<close>. The guard of \<open>InvStd\<close> makes this false when both
  are zero: the quotient is infinite, and the code returns 0.
\<close>

theorem InvStd_guard_counterexample:
  "InvStd (Fin 0) (Fin 0) \<noteq> Fin 1 / fp_sqrt (Fin 0 + Fin 0)"
  by (simp add: InvStd_def fp_ne_def signed_inf_def)

text \<open>
  C4, amended: \<open>InvStd\<close> returns \<open>1 / sqrt (var + eps)\<close> unless the variance and
  epsilon are both zero, where it returns 0; \<open>Var\<close> returns the variance unchanged,
  and the standalone entry point \<^verbatim>\<open>batch_norm_update_stats_cpu\<close> runs the
  statistics with \<open>Var\<close> and epsilon 0.
\<close>

theorem VarTransform_values:
  "InvStd var eps = (if var = Fin 0 \<and> eps = Fin 0 then Fin 0 else Fin 1 / fp_sqrt (var + eps))
   \<and> Var var eps = var
   \<and> batch_norm_update_stats_cpu self running_mean running_var momentum
       = batch_norm_cpu_update_stats_template Var self running_mean running_var momentum (Fin 0)"
  by (simp add: InvStd_def Var_def fp_ne_zero batch_norm_update_stats_cpu_def)

theorem VarTransform_values_witness:
  "InvStd (Fin 3) (Fin 1) = Fin (1 / 2) \<and> InvStd (Fin 0) (Fin 0) = Fin 0
   \<and> Var (Fin 3) (Fin 1) = Fin 3"
  using VarTransform_values [of "Fin 3" "Fin 1"] VarTransform_values [of "Fin 0" "Fin 0"]
  by simp

section \<open>Backend selection (C7, C8)\<close>

lemma validation_passes:
  assumes "\<not> args_rejected input weight bias running_mean running_var training"
  shows "and_then
             (case running_mean of
                Some t \<Rightarrow> check_dims_match_num_input_features ''running_mean'' (sizes input ! 1) (numel t)
              | None \<Rightarrow>
                  if \<not> training
                  then Inl (TorchCheck ''running_mean must be defined in evaluation mode'')
                  else Inr ())
             (\<lambda>_.
           and_then
             (case running_var of
                Some t \<Rightarrow> check_dims_match_num_input_features ''running_var'' (sizes input ! 1) (numel t)
              | None \<Rightarrow>
                  if \<not> training
                  then Inl (TorchCheck ''running_var must be defined in evaluation mode'')
                  else Inr ())
             (\<lambda>_.
           and_then
             (case weight of
                Some t \<Rightarrow> check_dims_match_num_input_features ''weight'' (sizes input ! 1) (numel t)
              | None \<Rightarrow> Inr ())
             (\<lambda>_.
             (case bias of
                Some t \<Rightarrow> check_dims_match_num_input_features ''bias'' (sizes input ! 1) (numel t)
              | None \<Rightarrow> Inr ())))) = Inr ()"
  using assms
  by (auto simp: args_rejected_def count_differs_def check_dims_match_num_input_features_def
      split: option.splits)

text \<open>
  C7: when an optional per-channel argument has the wrong element count, or the
  running statistics are missing in evaluation mode, \<^verbatim>\<open>_batch_norm_impl_index\<close> fails
  with one and the same error whatever the backends, the hooks and the other
  arguments are, and the running statistics are the ones it was given: the checks
  come before any implementation is chosen or run. For all other arguments one of
  the three implementations runs: the running statistics are the ones it leaves,
  and the call fails only if an implementation fails.
\<close>

theorem impl_index_validates_first:
  "(args_rejected input weight bias running_mean running_var training \<longrightarrow>
      (\<exists>e. \<forall>B H momentum eps cudnn_enabled.
           batch_norm_impl_index B H input weight bias running_mean running_var training
             momentum eps cudnn_enabled = (Inl e, running_mean, running_var)))
   \<and> (\<not> args_rejected input weight bias running_mean running_var training \<longrightarrow>
      (\<forall>B H momentum eps cudnn_enabled.
         snd (batch_norm_impl_index B H input weight bias running_mean running_var training
                momentum eps cudnn_enabled)
           \<in> {snd (cudnn_batch_norm B input weight bias running_mean running_var training
                      momentum eps),
               snd (miopen_batch_norm B input weight bias running_mean running_var training
                      momentum eps),
               snd (native_batch_norm B input weight bias running_mean running_var training
                      momentum eps)}
         \<and> (isl (fst (batch_norm_impl_index B H input weight bias running_mean running_var
                  training momentum eps cudnn_enabled)) \<longrightarrow>
              isl (fst (cudnn_batch_norm B input weight bias running_mean running_var training
                      momentum eps))
              \<or> isl (fst (miopen_batch_norm B input weight bias running_mean running_var
                      training momentum eps))
              \<or> isl (fst (native_batch_norm B input weight bias running_mean running_var
                      training momentum eps)))))"
proof (intro conjI impI)
  assume "args_rejected input weight bias running_mean running_var training"
  then show "\<exists>e. \<forall>B H momentum eps cudnn_enabled.
           batch_norm_impl_index B H input weight bias running_mean running_var training
             momentum eps cudnn_enabled = (Inl e, running_mean, running_var)"
    unfolding args_rejected_def count_differs_def batch_norm_impl_index_def
      check_dims_match_num_input_features_def Let_def
    by (auto split: option.splits)
next
  assume ok: "\<not> args_rejected input weight bias running_mean running_var training"
  show "\<forall>B H momentum eps cudnn_enabled.
         snd (batch_norm_impl_index B H input weight bias running_mean running_var training
                momentum eps cudnn_enabled)
           \<in> {snd (cudnn_batch_norm B input weight bias running_mean running_var training
                      momentum eps),
               snd (miopen_batch_norm B input weight bias running_mean running_var training
                      momentum eps),
               snd (native_batch_norm B input weight bias running_mean running_var training
                      momentum eps)}
         \<and> (isl (fst (batch_norm_impl_index B H input weight bias running_mean running_var
                  training momentum eps cudnn_enabled)) \<longrightarrow>
              isl (fst (cudnn_batch_norm B input weight bias running_mean running_var training
                      momentum eps))
              \<or> isl (fst (miopen_batch_norm B input weight bias running_mean running_var
                      training momentum eps))
              \<or> isl (fst (native_batch_norm B input weight bias running_mean running_var
                      training momentum eps)))"
    unfolding batch_norm_impl_index_def Let_def validation_passes [OF ok]
    by (simp split: prod.splits sum.splits)
qed

theorem impl_index_validates_first_witness:
  "args_rejected (tens [2, 3] [1, 2, 3, 4, 5, 6]) (Some (vec [1, 1])) None
     (Some (vec [0, 0, 0])) (Some (vec [1, 1, 1])) True
   \<and> (\<exists>e. \<forall>B H momentum eps cudnn_enabled.
         batch_norm_impl_index B H (tens [2, 3] [1, 2, 3, 4, 5, 6]) (Some (vec [1, 1])) None
           (Some (vec [0, 0, 0])) (Some (vec [1, 1, 1])) True momentum eps cudnn_enabled
         = (Inl e, Some (vec [0, 0, 0]), Some (vec [1, 1, 1])))"
proof -
  have r: "args_rejected (tens [2, 3] [1, 2, 3, 4, 5, 6]) (Some (vec [1, 1])) None
     (Some (vec [0, 0, 0])) (Some (vec [1, 1, 1])) True"
    by (simp add: args_rejected_def count_differs_def tens_def vec_def numel_def)
  show ?thesis
    using r impl_index_validates_first [of "tens [2, 3] [1, 2, 3, 4, 5, 6]" "Some (vec [1, 1])"
        None "Some (vec [0, 0, 0])" "Some (vec [1, 1, 1])" True]
    by blast
qed

text \<open>
  C8: \<^verbatim>\<open>_batch_norm_impl_index_backward\<close> gives index 0 to the native backward, 1 to
  the cuDNN backward and 2 to the MIOpen backward, each with the arguments in its own
  order; any other index fails an internal assertion and calls none of them.
\<close>

theorem impl_index_backward_routing:
  "batch_norm_impl_index_backward B 0 input grad_output weight running_mean running_var save_mean
       save_var_transform train epsilon output_mask reservedSpace
     = native_batch_norm_backward B grad_output input weight running_mean running_var save_mean
         save_var_transform train epsilon output_mask
   \<and> batch_norm_impl_index_backward B 1 input grad_output weight running_mean running_var save_mean
       save_var_transform train epsilon output_mask reservedSpace
     = cudnn_batch_norm_backward B input grad_output weight running_mean running_var save_mean
         save_var_transform epsilon reservedSpace
   \<and> batch_norm_impl_index_backward B 2 input grad_output weight running_mean running_var save_mean
       save_var_transform train epsilon output_mask reservedSpace
     = miopen_batch_norm_backward B input grad_output weight running_mean running_var save_mean
         save_var_transform epsilon
   \<and> (impl_index \<notin> {0, 1, 2} \<longrightarrow>
        (\<exists>msg. \<forall>B'. batch_norm_impl_index_backward B' impl_index input grad_output weight
           running_mean running_var save_mean save_var_transform train epsilon output_mask
           reservedSpace
         = Inl (InternalAssert msg)))"
  by (simp add: batch_norm_impl_index_backward_def)

theorem impl_index_backward_routing_witness:
  "(3 :: int) \<notin> {0, 1, 2}
   \<and> (\<exists>msg. \<forall>B'. batch_norm_impl_index_backward B' 3 (tens [2, 1] [3, 5]) (tens [2, 1] [1, 1])
         None None None (Some (vec [4])) (Some (vec [1])) True (Fin 0) (True, False, False)
         (tens [0] [])
       = Inl (InternalAssert msg))
   \<and> batch_norm_impl_index_backward example_backward 1 (tens [2, 1] [3, 5]) (tens [2, 1] [1, 1])
         None None None (Some (vec [4])) (Some (vec [1])) True (Fin 0) (True, False, False)
         (tens [0] [])
       = Inl (TorchCheck ''no cuDNN'')"
  using impl_index_backward_routing [of example_backward "tens [2, 1] [3, 5]"
      "tens [2, 1] [1, 1]" None None None "Some (vec [4])" "Some (vec [1])" True "Fin 0"
      "(True, False, False)" "tens [0] []" 3]
  by (simp add: example_backward_def)

section \<open>The checks of \<^verbatim>\<open>renorm\<close> (C9)\<close>

text \<open>
  C9, as stated: the call is rejected when \<open>p\<close> is complex or \<open>p \<le> 0\<close>, when
  \<open>maxnorm\<close> is complex or \<open>maxnorm < 0\<close>, or when the input has fewer than two
  axes, and otherwise the output has the shape of the input. With \<open>p\<close> a NaN none
  of these conditions holds, and the check \<^verbatim>\<open>p.toDouble() > 0.0\<close> still rejects the
  call.
\<close>

theorem renorm_nan_counterexample:
  "\<not> (isComplex (ScalarDouble NaN) \<or> toDouble (ScalarDouble NaN) \<le> Fin 0
       \<or> isComplex (ScalarDouble (Fin 5)) \<or> toDouble (ScalarDouble (Fin 5)) < Fin 0
       \<or> dim (tens [2, 2] [1, 2, 3, 4]) < 2)
   \<and> renorm_meta (tens [2, 2] [1, 2, 3, 4]) (ScalarDouble NaN) 0 (ScalarDouble (Fin 5))
       \<noteq> Inr (sizes (tens [2, 2] [1, 2, 3, 4]))"
  by (simp add: renorm_meta_def tens_def dim_def)

text \<open>
  C9, amended: the meta function of \<^verbatim>\<open>renorm\<close>, which runs before any norm is
  computed, fails a check exactly when \<open>p\<close> is complex, not above 0 or NaN, or
  \<open>maxnorm\<close> is complex, below 0 or NaN, or the input has fewer than two axes;
  otherwise it declares an output with the sizes of the input.
\<close>

theorem renorm_meta_checks:
  "(renorm_rejects self p maxnorm \<longrightarrow> (\<exists>msg. renorm_meta self p d maxnorm = Inl (TorchCheck msg)))
   \<and> (\<not> renorm_rejects self p maxnorm \<longrightarrow> renorm_meta self p d maxnorm = Inr (sizes self))"
  unfolding renorm_meta_def renorm_rejects_def
  by (auto simp: not_pos_iff not_nonneg_iff)

theorem renorm_meta_checks_witness:
  "renorm_rejects (tens [2, 2] [1, 2, 3, 4]) (ScalarInt 0) (ScalarDouble (Fin 5))
   \<and> (\<exists>msg. renorm_meta (tens [2, 2] [1, 2, 3, 4]) (ScalarInt 0) 0 (ScalarDouble (Fin 5))
              = Inl (TorchCheck msg))
   \<and> \<not> renorm_rejects (tens [2, 2] [1, 2, 3, 4]) (ScalarInt 2) (ScalarDouble (Fin 5))
   \<and> renorm_meta (tens [2, 2] [1, 2, 3, 4]) (ScalarInt 2) 0 (ScalarDouble (Fin 5)) = Inr [2, 2]"
  using renorm_meta_checks [of "tens [2, 2] [1, 2, 3, 4]" "ScalarInt 0" "ScalarDouble (Fin 5)" 0]
    renorm_meta_checks [of "tens [2, 2] [1, 2, 3, 4]" "ScalarInt 2" "ScalarDouble (Fin 5)" 0]
  by (simp add: renorm_rejects_def tens_def dim_def)

section \<open>Channel views and loops\<close>

lemma prod_list_split2:
  assumes "2 \<le> length sz"
  shows "prod_list sz = sz ! 0 * sz ! 1 * prod_list (drop 2 sz)"
proof -
  from assms obtain a b rest where "sz = a # b # rest"
    by (cases sz; cases "tl sz") auto
  then show ?thesis by (simp add: mult.assoc)
qed

lemma numel_split:
  "2 \<le> dim t \<Longrightarrow> numel t = sizes t ! 0 * sizes t ! 1 * prod_list (drop 2 (sizes t))"
  by (simp add: numel_def dim_def prod_list_split2)

lemma numel_div_channels:
  "2 \<le> dim t \<Longrightarrow> 0 < sizes t ! 1 \<Longrightarrow> numel t div sizes t ! 1 = chan_count (sizes t)"
  by (simp add: numel_split chan_count_def)

lemma chan_offset_div:
  assumes "f < sz ! 1" "0 < prod_list (drop 2 sz)"
  shows "chan_offset sz f j div (sz ! 1 * prod_list (drop 2 sz)) = j div prod_list (drop 2 sz)"
proof -
  let ?S = "prod_list (drop 2 sz)" and ?C = "sz ! 1"
  have r: "j mod ?S < ?S" using assms by simp
  have "f * ?S + j mod ?S < Suc f * ?S" using r by simp
  also have "\<dots> \<le> ?C * ?S" using assms by (intro mult_le_mono1) simp
  finally have lt: "f * ?S + j mod ?S < ?C * ?S" .
  have "chan_offset sz f j = (f * ?S + j mod ?S) + (j div ?S) * (?C * ?S)"
    by (simp add: chan_offset_def Let_def)
  moreover have "?C * ?S \<noteq> 0" using assms by auto
  ultimately show ?thesis using lt by simp
qed

lemma chan_offset_mod:
  assumes "f < sz ! 1" "0 < prod_list (drop 2 sz)"
  shows "chan_offset sz f j mod (sz ! 1 * prod_list (drop 2 sz)) = f * prod_list (drop 2 sz) + j mod prod_list (drop 2 sz)"
proof -
  let ?S = "prod_list (drop 2 sz)" and ?C = "sz ! 1"
  have r: "j mod ?S < ?S" using assms by simp
  have "f * ?S + j mod ?S < Suc f * ?S" using r by simp
  also have "\<dots> \<le> ?C * ?S" using assms by (intro mult_le_mono1) simp
  finally have lt: "f * ?S + j mod ?S < ?C * ?S" .
  have "chan_offset sz f j = (f * ?S + j mod ?S) + (j div ?S) * (?C * ?S)"
    by (simp add: chan_offset_def Let_def)
  moreover have "?C * ?S \<noteq> 0" using assms by auto
  ultimately show ?thesis using lt by simp
qed

lemma chan_offset_inj:
  assumes "f < sz ! 1" "f' < sz ! 1" "0 < prod_list (drop 2 sz)"
    and eq: "chan_offset sz f j = chan_offset sz f' j'"
  shows "f = f' \<and> j = j'"
proof -
  let ?S = "prod_list (drop 2 sz)"
  have d: "j div ?S = j' div ?S"
    using chan_offset_div [OF assms(1,3), of j] chan_offset_div [OF assms(2,3), of j'] eq by simp
  have m: "f * ?S + j mod ?S = f' * ?S + j' mod ?S"
    using chan_offset_mod [OF assms(1,3), of j] chan_offset_mod [OF assms(2,3), of j'] eq by simp
  have "(f * ?S + j mod ?S) div ?S = f" "(f' * ?S + j' mod ?S) div ?S = f'"
    using assms(3) by simp_all
  with m have ff: "f = f'" by metis
  have "(f * ?S + j mod ?S) mod ?S = j mod ?S" "(f' * ?S + j' mod ?S) mod ?S = j' mod ?S"
    by simp_all
  with m have "j mod ?S = j' mod ?S" by metis
  with d have "j = j'" by (metis div_mult_mod_eq)
  with ff show ?thesis by simp
qed

lemma chan_offset_less:
  assumes "f < sz ! 1" "j < chan_count sz"
  shows "chan_offset sz f j < sz ! 0 * sz ! 1 * prod_list (drop 2 sz)"
proof -
  let ?S = "prod_list (drop 2 sz)" and ?C = "sz ! 1" and ?N = "sz ! 0"
  from assms(2) have jN: "j < ?N * ?S" by (simp add: chan_count_def)
  then have S: "0 < ?S" by (cases "?S = 0") auto
  have q: "j div ?S < ?N" using jN S by (simp add: less_mult_imp_div_less mult.commute)
  have r: "j mod ?S < ?S" using S by simp
  have "f * ?S + j mod ?S < Suc f * ?S" using r by simp
  also have "\<dots> \<le> ?C * ?S" using assms by (intro mult_le_mono1) simp
  finally have lt: "f * ?S + j mod ?S < ?C * ?S" .
  have "chan_offset sz f j = (j div ?S) * (?C * ?S) + (f * ?S + j mod ?S)"
    by (simp add: chan_offset_def Let_def)
  also have "\<dots> < (j div ?S) * (?C * ?S) + ?C * ?S" using lt by simp
  also have "\<dots> = Suc (j div ?S) * (?C * ?S)" by simp
  also have "\<dots> \<le> ?N * (?C * ?S)" using q by (intro mult_le_mono1) simp
  finally show ?thesis by (simp add: mult.assoc)
qed

lemma fold_update_length [simp]:
  "length (fold (\<lambda>j d. d[g j := v j]) js d) = length d"
  by (induction js arbitrary: d) auto

lemma fold_update_other:
  "k \<notin> g ` set js \<Longrightarrow> fold (\<lambda>j d. d[g j := v j]) js d ! k = d ! k"
  by (induction js arbitrary: d) auto

lemma fold_update_hit:
  assumes "inj_on g (set js)" "distinct js" "j \<in> set js" "g j < length d"
  shows "fold (\<lambda>j d. d[g j := v j]) js d ! g j = v j"
  using assms
proof (induction js arbitrary: d)
  case Nil
  then show ?case by simp
next
  case (Cons x xs)
  show ?case
  proof (cases "j = x")
    case True
    then have "g j \<notin> g ` set xs"
      using Cons.prems(1,2) by (auto simp: inj_on_def)
    then show ?thesis using True Cons.prems(4) by (simp add: fold_update_other)
  next
    case False
    then have "j \<in> set xs" using Cons.prems(3) by simp
    moreover have "inj_on g (set xs)" "distinct xs" using Cons.prems(1,2) by (auto simp: inj_on_def)
    ultimately show ?thesis using Cons.IH [of "d[g x := v x]"] Cons.prems(4) by simp
  qed
qed


lemma fold_upt_invariant:
  assumes "Inv 0 s0" and "\<And>i s. i < m \<Longrightarrow> Inv i s \<Longrightarrow> Inv (Suc i) (step i s)"
  shows "Inv m (fold step [0..<m] s0)"
  using assms(2)
proof (induction m)
  case 0
  then show ?case using assms(1) by simp
next
  case (Suc m)
  have "Inv m (fold step [0..<m] s0)" using Suc by simp
  then show ?case using Suc.prems [of m] by simp
qed

lemma fsum_map: "fsum (map g xs) = fold (\<lambda>x acc. acc + g x) xs (Fin 0)"
  by (simp add: fsum_def fold_map comp_def)

lemma conditional_accessor_1d_vector:
  "opt_vector C t \<Longrightarrow> conditional_accessor_1d t = Inr t"
  by (auto simp: opt_vector_def is_vector_def conditional_accessor_1d_def accessor_1d_def dim_def
      split: option.splits)

section \<open>Batch statistics\<close>

lemma update_stats_channel_fields:
  assumes sm: "data save_mean ! i = batch_mean input i"
  shows "st_save_var_transform (update_stats_channel vt input save_mean momentum eps n i st) =
      acc_write (st_save_var_transform st) i (vt (var_sum input i / of_count (int n)) eps)"
    and "st_running_mean (update_stats_channel vt input save_mean momentum eps n i st) =
      map_option (\<lambda>t. acc_write t i (blend momentum (batch_mean input i) (data t ! i)))
        (st_running_mean st)"
    and "st_running_var (update_stats_channel vt input save_mean momentum eps n i st) =
      map_option (\<lambda>t. acc_write t i
           (blend momentum (var_sum input i / of_count (int n - 1)) (data t ! i)))
        (st_running_var st)"
proof -
  have vs: "fold (\<lambda>x acc. acc + (x - batch_mean input i) * (x - batch_mean input i))
              (select1 input i) (Fin 0) = var_sum input i"
    by (simp add: var_sum_def fsum_map)
  show "st_save_var_transform (update_stats_channel vt input save_mean momentum eps n i st) =
      acc_write (st_save_var_transform st) i (vt (var_sum input i / of_count (int n)) eps)"
    by (cases "st_running_mean st"; cases "st_running_var st")
       (simp_all add: update_stats_channel_def Let_def sm vs)
  show "st_running_mean (update_stats_channel vt input save_mean momentum eps n i st) =
      map_option (\<lambda>t. acc_write t i (blend momentum (batch_mean input i) (data t ! i)))
        (st_running_mean st)"
    by (cases "st_running_mean st"; cases "st_running_var st")
       (simp_all add: update_stats_channel_def Let_def sm vs blend_def)
  show "st_running_var (update_stats_channel vt input save_mean momentum eps n i st) =
      map_option (\<lambda>t. acc_write t i
           (blend momentum (var_sum input i / of_count (int n - 1)) (data t ! i)))
        (st_running_var st)"
    by (cases "st_running_mean st"; cases "st_running_var st")
       (simp_all add: update_stats_channel_def Let_def sm vs blend_def)
qed


lemma map_upt_update:
  "i < C \<Longrightarrow> (map (\<lambda>c. if c < i then F c else G c) [0..<C])[i := F i]
     = map (\<lambda>c. if c < Suc i then F c else G c) [0..<C]"
  by (auto intro!: nth_equalityI simp: nth_list_update less_Suc_eq)

lemma map_upt_nth_self: "length xs = C \<Longrightarrow> map (\<lambda>c. xs ! c) [0..<C] = xs"
  by (auto intro!: nth_equalityI)

lemma update_stats_fold:
  fixes vt :: "scalar \<Rightarrow> scalar \<Rightarrow> scalar" and momentum eps :: scalar and n :: nat
  assumes rm: "opt_vector C rm" and rv: "opt_vector C rv"
    and sm: "\<And>i. i < C \<Longrightarrow> data save_mean ! i = batch_mean input i"
    and l0: "length (data svt0) = C"
  defines "st \<equiv> fold (update_stats_channel vt input save_mean momentum eps n) [0..<C]
                  \<lparr>st_save_var_transform = svt0, st_running_mean = rm, st_running_var = rv\<rparr>"
  shows "st_save_var_transform st =
           svt0\<lparr>data := map (\<lambda>c. vt (var_sum input c / of_count (int n)) eps) [0..<C]\<rparr>"
    and "st_running_mean st =
           map_option (\<lambda>t. t\<lparr>data := map (\<lambda>c. blend momentum (batch_mean input c) (data t ! c))
                                     [0..<C]\<rparr>) rm"
    and "st_running_var st =
           map_option (\<lambda>t. t\<lparr>data := map (\<lambda>c. blend momentum
                                     (var_sum input c / of_count (int n - 1)) (data t ! c))
                                     [0..<C]\<rparr>) rv"
proof -
  let ?step = "update_stats_channel vt input save_mean momentum eps n"
  let ?s0 = "\<lparr>st_save_var_transform = svt0, st_running_mean = rm, st_running_var = rv\<rparr>"
  let ?V = "\<lambda>c. vt (var_sum input c / of_count (int n)) eps"
  let ?M = "\<lambda>t c. blend momentum (batch_mean input c) (data t ! c)"
  let ?U = "\<lambda>t c. blend momentum (var_sum input c / of_count (int n - 1)) (data t ! c)"
  define Inv where "Inv i s \<longleftrightarrow>
      st_save_var_transform s
        = svt0\<lparr>data := map (\<lambda>c. if c < i then ?V c else data svt0 ! c) [0..<C]\<rparr>
      \<and> st_running_mean s
        = map_option (\<lambda>t. t\<lparr>data := map (\<lambda>c. if c < i then ?M t c else data t ! c) [0..<C]\<rparr>) rm
      \<and> st_running_var s
        = map_option (\<lambda>t. t\<lparr>data := map (\<lambda>c. if c < i then ?U t c else data t ! c) [0..<C]\<rparr>) rv"
    for i and s :: stats_state
  have lrm: "\<And>t. rm = Some t \<Longrightarrow> length (data t) = C"
    and lrv: "\<And>t. rv = Some t \<Longrightarrow> length (data t) = C"
    using rm rv by (auto simp: opt_vector_def is_vector_def)
  have init: "Inv 0 ?s0"
    unfolding Inv_def using l0 lrm lrv
    by (cases rm; cases rv) (simp_all add: map_upt_nth_self)
  have step: "Inv (Suc i) (?step i s)" if i: "i < C" and inv: "Inv i s" for i s
  proof -
    note f = update_stats_channel_fields [OF sm [OF i], of vt momentum eps n s]
    have a: "st_save_var_transform (?step i s)
        = svt0\<lparr>data := map (\<lambda>c. if c < Suc i then ?V c else data svt0 ! c) [0..<C]\<rparr>"
      using inv i unfolding Inv_def f(1)
      by (simp add: acc_write_def map_upt_update [where F = ?V])
    have b: "st_running_mean (?step i s)
        = map_option (\<lambda>t. t\<lparr>data := map (\<lambda>c. if c < Suc i then ?M t c else data t ! c)
                                    [0..<C]\<rparr>) rm"
    proof (cases rm)
      case None
      then show ?thesis using inv unfolding Inv_def f(2) by simp
    next
      case (Some t)
      then show ?thesis
        using inv i unfolding Inv_def f(2)
        by (simp add: acc_write_def map_upt_update [where F = "?M t"])
    qed
    have c: "st_running_var (?step i s)
        = map_option (\<lambda>t. t\<lparr>data := map (\<lambda>c. if c < Suc i then ?U t c else data t ! c)
                                    [0..<C]\<rparr>) rv"
    proof (cases rv)
      case None
      then show ?thesis using inv unfolding Inv_def f(3) by simp
    next
      case (Some t)
      then show ?thesis
        using inv i unfolding Inv_def f(3)
        by (simp add: acc_write_def map_upt_update [where F = "?U t"])
    qed
    show ?thesis unfolding Inv_def using a b c by simp
  qed
  have fin: "Inv C st"
    unfolding st_def by (rule fold_upt_invariant [where Inv = Inv, OF init step])
  have eq: "\<And>F G. map (\<lambda>c. if c < C then F c else G c) [0..<C] = map F [0..<C]"
    by simp
  show "st_save_var_transform st = svt0\<lparr>data := map ?V [0..<C]\<rparr>"
    using fin unfolding Inv_def eq by simp
  show "st_running_mean st = map_option (\<lambda>t. t\<lparr>data := map (?M t) [0..<C]\<rparr>) rm"
    using fin unfolding Inv_def eq by simp
  show "st_running_var st = map_option (\<lambda>t. t\<lparr>data := map (?U t) [0..<C]\<rparr>) rv"
    using fin unfolding Inv_def eq by simp
qed

lemma size_at_1: "2 \<le> dim t \<Longrightarrow> size_at t 1 = Inr (sizes t ! 1)"
  by (simp add: size_at_def)

lemma int_div_channels:
  "2 \<le> dim t \<Longrightarrow> 0 < sizes t ! 1 \<Longrightarrow> int_div (numel t) (sizes t ! 1) = Inr (chan_count (sizes t))"
  by (simp del: One_nat_def add: int_div_def numel_div_channels)

lemma at_mean_eq: "at_mean t = map (batch_mean t) [0..<sizes t ! 1]"
  by (simp add: at_mean_def batch_mean_def)

lemma update_stats_template_result:
  fixes vt :: "scalar \<Rightarrow> scalar \<Rightarrow> scalar"
  assumes wf: "wf_input input"
    and rm: "opt_vector (sizes input ! 1) rm" and rv: "opt_vector (sizes input ! 1) rv"
  shows "batch_norm_cpu_update_stats_template vt input rm rv momentum eps =
    Inr \<lparr>res_save_mean = vector_like (map (batch_mean input) [0..<sizes input ! 1]) input,
         res_save_var_transform = (empty_sized [sizes input ! 1] input)
           \<lparr>data := map (\<lambda>c. vt (var_sum input c / of_count (int (chan_count (sizes input)))) eps)
                      [0..<sizes input ! 1]\<rparr>,
         res_running_mean =
           map_option (\<lambda>t. t\<lparr>data := map (\<lambda>c. blend momentum (batch_mean input c) (data t ! c))
                                     [0..<sizes input ! 1]\<rparr>) rm,
         res_running_var =
           map_option (\<lambda>t. t\<lparr>data := map (\<lambda>c. blend momentum
               (var_sum input c / of_count (int (chan_count (sizes input)) - 1)) (data t ! c))
                                     [0..<sizes input ! 1]\<rparr>) rv\<rparr>"
proof -
  let ?C = "sizes input ! 1"
  have d: "2 \<le> dim input" and C: "0 < ?C" using wf by (simp_all add: wf_input_def)
  have sm: "\<And>i. i < ?C \<Longrightarrow>
      data (vector_like (map (batch_mean input) [0..<?C]) input) ! i = batch_mean input i"
    by (simp add: vector_like_def)
  have l0: "length (data (empty_sized [?C] input)) = ?C"
    by (simp add: empty_sized_def)
  note f = update_stats_fold [OF rm rv sm l0, of vt momentum eps "chan_count (sizes input)"]
  show ?thesis
    unfolding batch_norm_cpu_update_stats_template_def
    by (simp del: One_nat_def add: size_at_1 [OF d] int_div_channels [OF d C] Let_def
        conditional_accessor_1d_vector [OF rm] conditional_accessor_1d_vector [OF rv] f
        at_mean_eq)
qed

lemma is_fin_fold_plus:
  "is_fin a \<Longrightarrow> \<forall>x\<in>set xs. is_fin x \<Longrightarrow> is_fin (fold (\<lambda>x acc. acc + x) xs a)"
proof (induction xs arbitrary: a)
  case Nil
  then show ?case by simp
next
  case (Cons x xs)
  then obtain u v where "a = Fin u" "x = Fin v"
    by (cases a; cases x) auto
  then show ?case using Cons by simp
qed

lemma is_fin_fsum: "\<forall>x\<in>set xs. is_fin x \<Longrightarrow> is_fin (fsum xs)"
  by (simp add: fsum_def is_fin_fold_plus)

lemma is_fin_square_diff: "is_fin x \<Longrightarrow> is_fin m \<Longrightarrow> is_fin ((x - m) * (x - m))"
  by (cases x; cases m) (simp_all add: minus_scalar_def)

lemma is_fin_div_count: "is_fin s \<Longrightarrow> n \<noteq> 0 \<Longrightarrow> is_fin (s / of_count (int n))"
  by (cases s) (simp_all add: of_count_def)

lemma select1_subset:
  assumes "wf_input t" "c < sizes t ! 1"
  shows "set (select1 t c) \<subseteq> set (data t)"
proof
  fix x assume "x \<in> set (select1 t c)"
  then obtain j where j: "j < chan_count (sizes t)" "x = data t ! chan_offset (sizes t) c j"
    by (auto simp: select1_def)
  have "chan_offset (sizes t) c j < length (data t)"
    using chan_offset_less [OF assms(2) j(1)] assms(1)
    by (simp del: One_nat_def add: wf_input_def numel_split)
  then show "x \<in> set (data t)" using j(2) by simp
qed

lemma is_fin_var_sum:
  assumes wf: "wf_input t" and c: "c < sizes t ! 1" and fin: "\<forall>x\<in>set (data t). is_fin x"
    and n: "chan_count (sizes t) \<noteq> 0"
  shows "is_fin (var_sum t c)"
proof -
  have s: "\<forall>x\<in>set (select1 t c). is_fin x"
    using select1_subset [OF wf c] fin by auto
  have m: "is_fin (batch_mean t c)"
    unfolding batch_mean_def by (intro is_fin_div_count is_fin_fsum s n)
  show ?thesis
    unfolding var_sum_def using s m by (intro is_fin_fsum) (auto intro: is_fin_square_diff)
qed

lemma biased_ne_unbiased:
  assumes "is_fin v" "v \<noteq> Fin 0" "1 < n"
  shows "v / of_count (int n) \<noteq> v / of_count (int n - 1)"
proof -
  obtain u where u: "v = Fin u" "u \<noteq> 0" using assms(1,2) by (cases v) auto
  have "u / real n \<noteq> u / (real n - 1)"
    using u(2) assms(3) by (simp add: field_simps)
  then show ?thesis using u assms(3) by (simp add: of_count_def)
qed

lemma var_sum_single:
  assumes "chan_count (sizes t) = 1"
  shows "var_sum t c / of_count (int (chan_count (sizes t)) - 1) = NaN"
proof -
  obtain x where x: "select1 t c = [x]"
    using assms by (simp add: select1_def)
  show ?thesis
    unfolding var_sum_def batch_mean_def x assms
    by (cases x) (simp_all add: fsum_def of_count_def minus_scalar_def signed_inf_def)
qed

lemma blend_NaN: "blend momentum NaN old = NaN"
  by (cases momentum) (simp_all add: blend_def signed_inf_def)

lemma fsum_single: "fsum [x] = x"
  by (cases x) (simp_all add: fsum_def)

lemma div_one_scalar: "x / of_count 1 = x"
  by (cases x) (simp_all add: of_count_def signed_inf_def)

lemma batch_mean_single:
  assumes "chan_count (sizes t) = 1"
  shows "batch_mean t c = select1 t c ! 0"
proof -
  obtain x where x: "select1 t c = [x]"
    using assms by (simp add: select1_def)
  show ?thesis unfolding batch_mean_def x assms by (simp add: fsum_single div_one_scalar)
qed

lemma var_sum_single_fin:
  assumes "chan_count (sizes t) = 1" and "is_fin (select1 t c ! 0)"
  shows "var_sum t c = Fin 0"
proof -
  obtain x where x: "select1 t c = [x]"
    using assms by (simp add: select1_def)
  obtain u where u: "x = Fin u" using assms(2) x by (cases x) auto
  show ?thesis
    unfolding var_sum_def batch_mean_single [OF assms(1)] x
    by (simp add: fsum_single u minus_scalar_def)
qed

subsection \<open>Biased and unbiased variance (C2)\<close>

text \<open>
  C2: for a well-formed input and every variance transform, the transformed statistic
  of channel \<open>c\<close> is the transform of the biased variance \<open>var_sum / n\<close>, the value
  blended into \<open>running_var\<close> (when it is there) is the unbiased variance
  \<open>var_sum / (n - 1)\<close>, and for a batch of finite numbers with \<open>n > 1\<close> and a
  nonzero \<open>var_sum\<close> the two variances differ.
\<close>

theorem biased_and_unbiased_variance:
  fixes vt :: "scalar \<Rightarrow> scalar \<Rightarrow> scalar"
  assumes "wf_input input"
    and "opt_vector (sizes input ! 1) running_mean"
    and "opt_vector (sizes input ! 1) running_var"
    and "c < sizes input ! 1"
  shows "\<exists>r. batch_norm_cpu_update_stats_template vt input running_mean running_var momentum eps
               = Inr r
     \<and> data (res_save_var_transform r) ! c
         = vt (var_sum input c / of_count (int (chan_count (sizes input)))) eps
     \<and> (\<forall>t. running_var = Some t \<longrightarrow>
           (\<exists>t'. res_running_var r = Some t'
              \<and> data t' ! c
                 = blend momentum
                     (var_sum input c / of_count (int (chan_count (sizes input)) - 1))
                     (data t ! c)))
     \<and> ((\<forall>x\<in>set (data input). is_fin x) \<and> 1 < chan_count (sizes input)
          \<and> var_sum input c \<noteq> Fin 0 \<longrightarrow>
         var_sum input c / of_count (int (chan_count (sizes input)))
           \<noteq> var_sum input c / of_count (int (chan_count (sizes input)) - 1))"
proof -
  have d: "(\<forall>x\<in>set (data input). is_fin x) \<and> 1 < chan_count (sizes input)
          \<and> var_sum input c \<noteq> Fin 0 \<longrightarrow>
         var_sum input c / of_count (int (chan_count (sizes input)))
           \<noteq> var_sum input c / of_count (int (chan_count (sizes input)) - 1)"
    using is_fin_var_sum [OF assms(1,4)] biased_ne_unbiased [of "var_sum input c"]
    by auto
  show ?thesis
    unfolding update_stats_template_result [OF assms(1-3)]
    using d assms(4) by (auto simp del: One_nat_def simp add: empty_sized_def)
qed

theorem biased_and_unbiased_variance_witness:
  "\<exists>r t'. batch_norm_cpu_update_stats_template InvStd (tens [2, 1] [3, 5]) None
             (Some (vec [1])) (Fin (1 / 10)) (Fin 0) = Inr r
     \<and> var_sum (tens [2, 1] [3, 5]) 0 = Fin 2
     \<and> data (res_save_var_transform r) ! 0 = Fin 1
     \<and> res_running_var r = Some t' \<and> data t' ! 0 = Fin (11 / 10)
     \<and> var_sum (tens [2, 1] [3, 5]) 0 / of_count 2 \<noteq> var_sum (tens [2, 1] [3, 5]) 0 / of_count 1"
proof -
  have 1: "wf_input (tens [2, 1] [3, 5])"
    by (simp add: wf_input_def tens_def dim_def numel_def)
  have 2: "opt_vector (sizes (tens [2, 1] [3, 5]) ! 1) None"
    by (simp add: opt_vector_def)
  have 3: "opt_vector (sizes (tens [2, 1] [3, 5]) ! 1) (Some (vec [1]))"
    by (simp add: opt_vector_def is_vector_def tens_def vec_def)
  have 4: "0 < sizes (tens [2, 1] [3, 5]) ! 1"
    by (simp add: tens_def)
  have 5: "var_sum (tens [2, 1] [3, 5]) 0 = Fin 2"
    by code_simp
  have 6: "chan_count (sizes (tens [2, 1] [3, 5])) = 2"
    by (simp add: chan_count_def tens_def)
  have 7: "\<forall>x\<in>set (data (tens [2, 1] [3, 5])). is_fin x"
    by (simp add: tens_def)
  show ?thesis
    using biased_and_unbiased_variance [OF 1 2 3 4, of InvStd "Fin (1 / 10)" "Fin 0"] 7
    unfolding 5 6
    by (auto simp: InvStd_def fp_ne_def of_count_def blend_def vec_def tens_def
          minus_scalar_def)
qed

subsection \<open>The running statistics (C3)\<close>

text \<open>
  C3: for a well-formed input, \<open>save_mean\<close> is the batch mean of every channel, a
  \<open>running_mean\<close> that is present becomes
  \<open>momentum * batch_mean + (1 - momentum) * running_mean\<close> in every channel, and a
  \<open>running_var\<close> that is present is blended the same way with the unbiased variance
  \<open>var_sum / (n - 1)\<close>. The example of the spec, momentum 0.1, running mean 0 and
  batch mean 4, gives 0.4.
\<close>

theorem running_stats_blend:
  fixes vt :: "scalar \<Rightarrow> scalar \<Rightarrow> scalar"
  assumes "wf_input input"
    and "opt_vector (sizes input ! 1) running_mean"
    and "opt_vector (sizes input ! 1) running_var"
  shows "\<exists>r. batch_norm_cpu_update_stats_template vt input running_mean running_var momentum eps
               = Inr r
     \<and> (\<forall>c < sizes input ! 1. data (res_save_mean r) ! c = batch_mean input c)
     \<and> (\<forall>t. running_mean = Some t \<longrightarrow>
           (\<exists>t'. res_running_mean r = Some t' \<and> sizes t' = sizes t
              \<and> (\<forall>c < sizes input ! 1.
                    data t' ! c
                      = momentum * batch_mean input c + (Fin 1 - momentum) * (data t ! c))))
     \<and> (\<forall>t. running_var = Some t \<longrightarrow>
           (\<exists>t'. res_running_var r = Some t' \<and> sizes t' = sizes t
              \<and> (\<forall>c < sizes input ! 1.
                    data t' ! c
                      = momentum * (var_sum input c
                                     / of_count (int (chan_count (sizes input)) - 1))
                        + (Fin 1 - momentum) * (data t ! c))))"
  unfolding update_stats_template_result [OF assms]
  by (auto simp del: One_nat_def simp add: vector_like_def blend_def)

theorem running_stats_blend_witness:
  "\<exists>r t'. batch_norm_update_stats_cpu (tens [2, 1] [3, 5]) (Some (vec [0])) None (Fin (1 / 10))
             = Inr r
     \<and> data (res_save_mean r) ! 0 = Fin 4
     \<and> res_running_mean r = Some t' \<and> data t' ! 0 = Fin (4 / 10)"
proof -
  have 1: "wf_input (tens [2, 1] [3, 5])"
    by (simp add: wf_input_def tens_def dim_def numel_def)
  have 2: "opt_vector (sizes (tens [2, 1] [3, 5]) ! 1) (Some (vec [0]))"
    by (simp add: opt_vector_def is_vector_def tens_def vec_def)
  have 3: "opt_vector (sizes (tens [2, 1] [3, 5]) ! 1) None"
    by (simp add: opt_vector_def)
  have 4: "batch_mean (tens [2, 1] [3, 5]) 0 = Fin 4"
    by code_simp
  show ?thesis
    using running_stats_blend [OF 1 2 3, of Var "Fin (1 / 10)" "Fin 0"] 4
    by (auto simp: batch_norm_update_stats_cpu_def tens_def vec_def minus_scalar_def)
qed

subsection \<open>One element per channel (C10)\<close>

text \<open>
  C10: for a well-formed input with \<open>running_var\<close> present the call returns, whatever
  the number \<open>n\<close> of elements of a channel is, and every channel of \<open>running_var\<close>
  becomes the blend of its old value with \<open>var_sum / (n - 1)\<close>, next to the batch
  mean and the transformed biased variance that are returned. Nothing is done
  differently for \<open>n = 1\<close>: the update is neither skipped nor refused. There the
  divisor \<open>n - 1\<close> is 0, the mean is the single element of the channel, \<open>var_sum\<close>
  is 0 when that element is finite, the quotient is NaN (0 / 0, or NaN / 0 for an
  element that is not finite), and NaN is what \<open>running_var\<close> holds afterwards.
\<close>

theorem running_var_single_element:
  fixes vt :: "scalar \<Rightarrow> scalar \<Rightarrow> scalar"
  assumes "wf_input input"
    and "opt_vector (sizes input ! 1) running_mean"
    and "is_vector (sizes input ! 1) t"
    and "c < sizes input ! 1"
  shows "\<exists>r t'. batch_norm_cpu_update_stats_template vt input running_mean (Some t) momentum eps
               = Inr r
     \<and> res_running_var r = Some t' \<and> sizes t' = sizes t
     \<and> data (res_save_mean r) ! c = batch_mean input c
     \<and> data (res_save_var_transform r) ! c
         = vt (var_sum input c / of_count (int (chan_count (sizes input)))) eps
     \<and> data t' ! c
         = momentum * (var_sum input c / of_count (int (chan_count (sizes input)) - 1))
           + (Fin 1 - momentum) * (data t ! c)
     \<and> (chan_count (sizes input) = 1 \<longrightarrow>
           of_count (int (chan_count (sizes input)) - 1) = Fin 0
         \<and> batch_mean input c = select1 input c ! 0
         \<and> (is_fin (select1 input c ! 0) \<longrightarrow> var_sum input c = Fin 0)
         \<and> var_sum input c / of_count (int (chan_count (sizes input)) - 1) = NaN
         \<and> data t' ! c = NaN)"
proof -
  have rv: "opt_vector (sizes input ! 1) (Some t)"
    using assms(3) by (simp add: opt_vector_def)
  have one: "chan_count (sizes input) = 1 \<longrightarrow>
           of_count (int (chan_count (sizes input)) - 1) = Fin 0
         \<and> batch_mean input c = select1 input c ! 0
         \<and> (is_fin (select1 input c ! 0) \<longrightarrow> var_sum input c = Fin 0)
         \<and> var_sum input c / of_count (int (chan_count (sizes input)) - 1) = NaN
         \<and> blend momentum (var_sum input c / of_count (int (chan_count (sizes input)) - 1))
             (data t ! c) = NaN"
    using var_sum_single [of input c] batch_mean_single [of input c]
      var_sum_single_fin [of input c] blend_NaN [of momentum "data t ! c"]
    by (auto simp: of_count_def)
  show ?thesis
    unfolding update_stats_template_result [OF assms(1,2) rv]
    using one assms(4)
    by (simp del: One_nat_def add: blend_def vector_like_def empty_sized_def of_count_def signed_inf_def)
qed

theorem running_var_single_element_witness:
  "(\<exists>r t'. batch_norm_cpu_update_stats_template InvStd (tens [1, 2] [3, 5]) None
             (Some (vec [1, 1])) (Fin (1 / 10)) (Fin 1) = Inr r
     \<and> res_running_var r = Some t' \<and> data t' ! 0 = NaN \<and> data t' ! 1 = NaN
     \<and> data (res_save_mean r) ! 0 = Fin 3 \<and> data (res_save_mean r) ! 1 = Fin 5
     \<and> data (res_save_var_transform r) ! 0 = Fin 1)
   \<and> (\<exists>r t'. batch_norm_cpu_update_stats_template InvStd (tens [2, 2] [1, 2, 3, 6]) None
             (Some (vec [1, 1])) (Fin (1 / 2)) (Fin 1) = Inr r
     \<and> res_running_var r = Some t' \<and> data t' ! 1 = Fin (9 / 2))"
proof -
  let ?a = "tens [1, 2] [3, 5]" and ?b = "tens [2, 2] [1, 2, 3, 6]"
  have a1: "wf_input ?a" and b1: "wf_input ?b" by code_simp+
  have a2: "opt_vector (sizes ?a ! 1) None" and b2: "opt_vector (sizes ?b ! 1) None"
    by code_simp+
  have a3: "is_vector (sizes ?a ! 1) (vec [1, 1])"
    and b3: "is_vector (sizes ?b ! 1) (vec [1, 1])" by code_simp+
  have a4: "0 < sizes ?a ! 1" "1 < sizes ?a ! 1" and b4: "1 < sizes ?b ! 1" by code_simp+
  have a5: "chan_count (sizes ?a) = 1" by code_simp
  have a6: "select1 ?a 0 ! 0 = Fin 3" "select1 ?a 1 ! 0 = Fin 5" by code_simp+
  have a7: "var_sum ?a 0 / of_count (int (chan_count (sizes ?a))) = Fin 0" by code_simp
  have a8: "InvStd (Fin 0) (Fin 1) = Fin 1" by (simp add: InvStd_def fp_ne_def)
  have b5: "momentum * (var_sum ?b 1 / of_count (int (chan_count (sizes ?b)) - 1))
              + (Fin 1 - momentum) * (data (vec [1, 1]) ! 1) = Fin (9 / 2)"
    if "momentum = Fin (1 / 2)" for momentum
    unfolding that by code_simp
  from running_var_single_element [OF a1 a2 a3 a4(1), of InvStd "Fin (1 / 10)" "Fin 1"]
    running_var_single_element [OF a1 a2 a3 a4(2), of InvStd "Fin (1 / 10)" "Fin 1"]
  have A: "\<exists>r t'. batch_norm_cpu_update_stats_template InvStd ?a None
             (Some (vec [1, 1])) (Fin (1 / 10)) (Fin 1) = Inr r
     \<and> res_running_var r = Some t' \<and> data t' ! 0 = NaN \<and> data t' ! 1 = NaN
     \<and> data (res_save_mean r) ! 0 = Fin 3 \<and> data (res_save_mean r) ! 1 = Fin 5
     \<and> data (res_save_var_transform r) ! 0 = Fin 1"
    unfolding a7 a8 using a5 a6 by auto
  from running_var_single_element [OF b1 b2 b3 b4, of InvStd "Fin (1 / 2)" "Fin 1"]
  have B: "\<exists>r t'. batch_norm_cpu_update_stats_template InvStd ?b None
             (Some (vec [1, 1])) (Fin (1 / 2)) (Fin 1) = Inr r
     \<and> res_running_var r = Some t' \<and> data t' ! 1 = Fin (9 / 2)"
    unfolding b5 [OF refl] by blast
  from A B show ?thesis by blast
qed

section \<open>The backward pass\<close>

lemma select1_write_sizes [simp]: "sizes (select1_write t f vals) = sizes t"
  by (simp add: select1_write_def)

lemma select1_write_length [simp]: "length (data (select1_write t f vals)) = length (data t)"
  by (simp add: select1_write_def)

lemma length_select1 [simp]: "length (select1 t f) = chan_count (sizes t)"
  by (simp add: select1_def)

lemma chan_count_pos_drop: "j < chan_count sz \<Longrightarrow> 0 < prod_list (drop 2 sz)"
  by (cases "prod_list (drop 2 sz) = 0") (auto simp: chan_count_def)

lemma select1_write_same:
  assumes d: "2 \<le> dim t" and l: "length (data t) = numel t" and f: "f < sizes t ! 1"
    and v: "length vals = chan_count (sizes t)"
  shows "select1 (select1_write t f vals) f = vals"
proof (rule nth_equalityI)
  show "length (select1 (select1_write t f vals) f) = length vals"
    using v by simp
next
  fix j assume "j < length (select1 (select1_write t f vals) f)"
  then have j: "j < chan_count (sizes t)" by simp
  have S: "0 < prod_list (drop 2 (sizes t))" by (rule chan_count_pos_drop [OF j])
  have inj: "inj_on (chan_offset (sizes t) f) (set [0..<length vals])"
    using chan_offset_inj [OF f f S] by (auto simp: inj_on_def)
  have lt: "chan_offset (sizes t) f j < length (data t)"
    using chan_offset_less [OF f j] d l by (simp del: One_nat_def add: numel_split)
  have "fold (\<lambda>j d. d[chan_offset (sizes t) f j := vals ! j]) [0..<length vals] (data t)
          ! chan_offset (sizes t) f j = vals ! j"
    by (rule fold_update_hit [OF inj _ _ lt]) (use j v in simp_all)
  then show "select1 (select1_write t f vals) f ! j = vals ! j"
    using j by (simp add: select1_def select1_write_def)
qed

lemma select1_write_other:
  assumes f: "f < sizes t ! 1" and c: "c < sizes t ! 1" and ne: "c \<noteq> f"
  shows "select1 (select1_write t f vals) c = select1 t c"
proof (rule nth_equalityI)
  show "length (select1 (select1_write t f vals) c) = length (select1 t c)"
    by simp
next
  fix j assume "j < length (select1 (select1_write t f vals) c)"
  then have j: "j < chan_count (sizes t)" by simp
  have S: "0 < prod_list (drop 2 (sizes t))" by (rule chan_count_pos_drop [OF j])
  have "chan_offset (sizes t) c j \<notin> chan_offset (sizes t) f ` set [0..<length vals]"
    using chan_offset_inj [OF c f S] ne by auto
  then have "fold (\<lambda>j d. d[chan_offset (sizes t) f j := vals ! j]) [0..<length vals] (data t)
          ! chan_offset (sizes t) c j = data t ! chan_offset (sizes t) c j"
    by (rule fold_update_other)
  then show "select1 (select1_write t f vals) c ! j = select1 t c ! j"
    using j by (simp add: select1_def select1_write_def)
qed

lemma dim_select1_write [simp]: "dim (select1_write t f vals) = dim t"
  by (simp add: dim_def)

lemma numel_select1_write [simp]: "numel (select1_write t f vals) = numel t"
  by (simp add: numel_def)

lemma backward_grad_in_fields [simp]:
  "sizes (backward_grad_in gi inp grad_out sum_a train n f w mean invstd dotp) = sizes gi"
  "length (data (backward_grad_in gi inp grad_out sum_a train n f w mean invstd dotp))
     = length (data gi)"
  by (simp_all add: backward_grad_in_def Let_def)

lemma backward_grad_in_same:
  assumes d: "2 \<le> dim gi" and l: "length (data gi) = numel gi" and f: "f < sizes gi ! 1"
    and li: "length inp = chan_count (sizes gi)" and lg: "length grad_out = chan_count (sizes gi)"
  shows "select1 (backward_grad_in gi inp grad_out sum_a train n f w mean invstd dotp) f =
     (if train then
        map (\<lambda>(x, go). (go - data sum_a ! f / of_count (int n)
                          - (x - mean) * (dotp * invstd * invstd / of_count (int n)))
                        * invstd * w) (zip inp grad_out)
      else map (\<lambda>go. go * invstd * w) grad_out)"
proof (cases train)
  case False
  then show ?thesis
    using select1_write_same [OF d l f, of "map (\<lambda>i. i * invstd * w) grad_out"] lg
    by (simp add: backward_grad_in_def)
next
  case True
  let ?k = "dotp * invstd * invstd / of_count (int n)"
  let ?v1 = "map (\<lambda>i. (i - mean) * ?k) inp"
  let ?g1 = "select1_write gi f ?v1"
  have s1: "select1 ?g1 f = ?v1"
    using select1_write_same [OF d l f, of ?v1] li by simp
  let ?gm = "data sum_a ! f / of_count (int n)"
  let ?v2 = "map (\<lambda>(g, go). (go - ?gm - g) * invstd * w) (zip (select1 ?g1 f) grad_out)"
  have d1: "2 \<le> dim ?g1" "length (data ?g1) = numel ?g1" "f < sizes ?g1 ! 1"
    using d l f by simp_all
  have s2: "select1 (select1_write ?g1 f ?v2) f = ?v2"
    using select1_write_same [OF d1, of ?v2] li lg by simp
  have "?v2 = map (\<lambda>(x, go). (go - ?gm - (x - mean) * ?k) * invstd * w) (zip inp grad_out)"
    unfolding s1 by (simp add: zip_map1 case_prod_unfold)
  then show ?thesis
    using True s2 by (simp add: backward_grad_in_def Let_def)
qed

lemma backward_grad_in_other:
  assumes f: "f < sizes gi ! 1" and c: "c < sizes gi ! 1" and ne: "c \<noteq> f"
  shows "select1 (backward_grad_in gi inp grad_out sum_a train n f w mean invstd dotp) c
           = select1 gi c"
  using assms by (simp add: backward_grad_in_def Let_def select1_write_other)

lemma for_each_append:
  "for_each body (xs @ ys) s = and_then (for_each body xs s) (for_each body ys)"
  by (induction xs arbitrary: s) (auto simp: and_then_def split: sum.splits)

lemma for_each_upt_invariant:
  assumes "Inv 0 s0"
    and "\<And>i s. i < m \<Longrightarrow> Inv i s \<Longrightarrow> \<exists>s'. body i s = Inr s' \<and> Inv (Suc i) s'"
  shows "\<exists>s'. for_each body [0..<m] s0 = Inr s' \<and> Inv m s'"
  using assms(2)
proof (induction m)
  case 0
  then show ?case using assms(1) by simp
next
  case (Suc m)
  then obtain s where s: "for_each body [0..<m] s0 = Inr s" "Inv m s"
    by (metis less_Suc_eq)
  from Suc.prems [of m s] s(2) obtain s' where "body m s = Inr s'" "Inv (Suc m) s'"
    by auto
  then show ?case using s(1) by (simp add: for_each_append)
qed

lemma dotp_fold:
  "fold (\<lambda>(i, go) acc. acc + (i - mean) * go) (zip (select1 input f) (select1 grad_out f)) (Fin 0)
     = chan_dotp input grad_out mean f"
  by (simp add: chan_dotp_def fsum_map case_prod_unfold)

lemma backward_channel_eval:
  fixes f :: nat and eps :: scalar and train :: bool
  assumes mt: "(if train then save_mean_a else running_mean_a) = Some mt"
    and vt: "(if train then save_invstd_a else running_var_a) = Some vt"
  defines "mean \<equiv> data mt ! f"
    and "invstd \<equiv> (if train then data vt ! f else Fin 1 / fp_sqrt (data vt ! f + eps))"
  shows "backward_channel grad_out input weight_a running_mean_a running_var_a save_mean_a
           save_invstd_a sum_a train eps (m0, m1, m2) n f
           \<lparr>grad_input = a, grad_weight = b, grad_bias = c\<rparr>
     = (if (m0 \<and> a = None) \<or> (m1 \<and> b = None) \<or> (m2 \<and> c = None) then Inl UndefinedTensor
        else Inr \<lparr>grad_input =
                    (if m0 then
                       map_option (\<lambda>gi. backward_grad_in gi (select1 input f) (select1 grad_out f)
                          sum_a train n f (weight_at weight_a f) mean invstd
                          (chan_dotp input grad_out mean f)) a
                     else a),
                  grad_weight =
                    (if m1 then
                       map_option (\<lambda>gw. acc_write gw f (chan_dotp input grad_out mean f * invstd)) b
                     else b),
                  grad_bias =
                    (if m2 then map_option (\<lambda>gb. acc_write gb f (data sum_a ! f)) c else c)\<rparr>)"
proof -
  have st: "(if train then
              and_then (acc_get save_mean_a f) (\<lambda>m.
              and_then (acc_get save_invstd_a f) (\<lambda>s. Inr (m, s)))
            else
              and_then (acc_get running_mean_a f) (\<lambda>m.
              and_then (acc_get running_var_a f) (\<lambda>v. Inr (m, Fin 1 / fp_sqrt (v + eps)))))
          = Inr (mean, invstd)"
    using mt vt by (cases train) (simp_all add: acc_get_def mean_def invstd_def)
  show ?thesis
    unfolding backward_channel_def Let_def st
    by (cases a; cases b; cases c; cases m0; cases m1; cases m2)
       (simp_all add: dotp_fold weight_at_def acc_set_def)
qed

lemma at_sum_nth: "c < sizes t ! 1 \<Longrightarrow> at_sum t ! c = chan_sum t c"
  by (simp add: at_sum_def chan_sum_def)

lemma empty_like_vector: "is_vector C t \<Longrightarrow> is_vector C (empty_like t)"
  by (simp add: is_vector_def empty_like_def numel_def)

lemma map_zip_snd:
  "length xs = length ys \<Longrightarrow> map (\<lambda>(x, y). g y) (zip xs ys) = map g ys"
  by (auto intro!: nth_equalityI)

lemma backward_step_input:
  assumes wf: "wf_input input" and go: "sizes grad_out = sizes input"
    and i: "i < sizes input ! 1"
    and gi: "sizes gi = sizes input" "length (data gi) = numel input"
    and prev: "\<forall>c<i. select1 gi c = G c"
    and cur: "G i = map (\<lambda>(x, go). grad_input_formula train go x (data sum_a ! i) dotp
                  (of_count (int n)) mean invstd w)
                (zip (select1 input i) (select1 grad_out i))"
  defines "gi' \<equiv> backward_grad_in gi (select1 input i) (select1 grad_out i) sum_a train n i w
                   mean invstd dotp"
  shows "sizes gi' = sizes input \<and> length (data gi') = numel input
         \<and> (\<forall>c<Suc i. select1 gi' c = G c)"
proof -
  have d: "2 \<le> dim gi" and l: "length (data gi) = numel gi" and f: "i < sizes gi ! 1"
    using wf gi i by (simp_all add: wf_input_def dim_def numel_def)
  have li: "length (select1 input i) = chan_count (sizes gi)"
    and lg: "length (select1 grad_out i) = chan_count (sizes gi)"
    using gi go by simp_all
  have same: "select1 gi' i = G i"
    unfolding gi'_def backward_grad_in_same [OF d l f li lg] cur
    using map_zip_snd [of "select1 input i" "select1 grad_out i" "\<lambda>go. go * invstd * w"] li lg
    by (cases train) (simp_all add: grad_input_formula_def)
  have other: "select1 gi' c = G c" if "c < i" for c
  proof -
    have "c < sizes gi ! 1" "c \<noteq> i" using that f by simp_all
    then show ?thesis
      unfolding gi'_def using backward_grad_in_other [OF f] prev that by simp
  qed
  show ?thesis
    using same other gi by (auto simp: gi'_def less_Suc_eq)
qed

lemma acc_write_vector:
  "is_vector C t \<Longrightarrow> is_vector C (acc_write t i v)"
  by (simp add: is_vector_def acc_write_def)

lemma acc_write_nth:
  "is_vector C t \<Longrightarrow> i < C \<Longrightarrow> \<forall>c<i. data t ! c = F c \<Longrightarrow> v = F i \<Longrightarrow>
     \<forall>c<Suc i. data (acc_write t i v) ! c = F c"
  by (auto simp: is_vector_def acc_write_def less_Suc_eq nth_list_update)

lemma backward_channel_step:
  fixes train :: bool and eps :: scalar
  assumes wf: "wf_input input" and go: "sizes grad_out = sizes input"
    and mt: "(if train then save_mean else running_mean) = Some mt"
    and vt: "(if train then save_invstd else running_var) = Some vt"
    and sum_a: "\<And>c. c < sizes input ! 1 \<Longrightarrow> data sum_a ! c = chan_sum grad_out c"
    and i: "i < sizes input ! 1"
    and inv: "backward_post grad_out input weight mt vt train eps (m0, m1, m2) i g"
  shows "\<exists>g'. backward_channel grad_out input weight running_mean running_var save_mean
                save_invstd sum_a train eps (m0, m1, m2) (chan_count (sizes input)) i g = Inr g'
           \<and> backward_post grad_out input weight mt vt train eps (m0, m1, m2) (Suc i) g'"
proof -
  obtain a b c where g: "g = \<lparr>grad_input = a, grad_weight = b, grad_bias = c\<rparr>"
    by (cases g) auto
  let ?mean = "data mt ! i" and ?inv = "stat_invstd train eps vt i"
  let ?dotp = "chan_dotp input grad_out ?mean i"
  let ?n = "chan_count (sizes input)"
  let ?G = "\<lambda>c. map (\<lambda>(x, go). grad_input_formula train go x (chan_sum grad_out c)
                        (chan_dotp input grad_out (data mt ! c) c)
                        (of_count (int (chan_count (sizes input))))
                        (data mt ! c) (stat_invstd train eps vt c) (weight_at weight c))
                   (zip (select1 input c) (select1 grad_out c))"
  have A: "m0 \<Longrightarrow> \<exists>gi. a = Some gi \<and> sizes gi = sizes input \<and> length (data gi) = numel input
              \<and> (\<forall>c<i. select1 gi c = ?G c)"
    and A': "\<not> m0 \<Longrightarrow> a = None"
    and B: "m1 \<Longrightarrow> \<exists>gw. b = Some gw \<and> is_vector (sizes input ! 1) gw
              \<and> (\<forall>c<i. data gw ! c = chan_dotp input grad_out (data mt ! c) c
                                       * stat_invstd train eps vt c)"
    and B': "\<not> m1 \<Longrightarrow> b = None"
    and C: "m2 \<Longrightarrow> \<exists>gb. c = Some gb \<and> is_vector (sizes input ! 1) gb
              \<and> (\<forall>c<i. data gb ! c = chan_sum grad_out c)"
    and C': "\<not> m2 \<Longrightarrow> c = None"
    using inv unfolding backward_post_def g by simp_all
  have ok: "\<not> ((m0 \<and> a = None) \<or> (m1 \<and> b = None) \<or> (m2 \<and> c = None))"
    using A B C by auto
  note ev = backward_channel_eval [OF mt vt, of grad_out input weight sum_a eps m0 m1 m2 ?n i a b c]
  let ?g' = "\<lparr>grad_input =
                    (if m0 then
                       map_option (\<lambda>gi. backward_grad_in gi (select1 input i) (select1 grad_out i)
                          sum_a train ?n i (weight_at weight i) ?mean ?inv ?dotp) a
                     else a),
                  grad_weight =
                    (if m1 then map_option (\<lambda>gw. acc_write gw i (?dotp * ?inv)) b else b),
                  grad_bias =
                    (if m2 then map_option (\<lambda>gb. acc_write gb i (data sum_a ! i)) c else c)\<rparr>"
  have run: "backward_channel grad_out input weight running_mean running_var save_mean
                save_invstd sum_a train eps (m0, m1, m2) ?n i g = Inr ?g'"
    unfolding g using ev ok by (simp add: stat_invstd_def)
  have P0: "if m0 then
        (\<exists>gi. grad_input ?g' = Some gi \<and> sizes gi = sizes input
           \<and> length (data gi) = numel input \<and> (\<forall>c<Suc i. select1 gi c = ?G c))
      else grad_input ?g' = None"
  proof (cases m0)
    case False
    then show ?thesis using A' by simp
  next
    case True
    with A obtain gi where gi: "a = Some gi" "sizes gi = sizes input"
      "length (data gi) = numel input" "\<forall>c<i. select1 gi c = ?G c" by auto
    have cur: "?G i = map (\<lambda>(x, go). grad_input_formula train go x (data sum_a ! i) ?dotp
                  (of_count (int ?n)) ?mean ?inv (weight_at weight i))
                (zip (select1 input i) (select1 grad_out i))"
      by (simp add: sum_a [OF i])
    from backward_step_input [OF wf go i gi(2,3,4) cur]
    show ?thesis using True gi(1) by simp
  qed
  have P1: "if m1 then
          (\<exists>gw. grad_weight ?g' = Some gw \<and> is_vector (sizes input ! 1) gw
             \<and> (\<forall>c<Suc i. data gw ! c
                   = chan_dotp input grad_out (data mt ! c) c * stat_invstd train eps vt c))
        else grad_weight ?g' = None"
  proof (cases m1)
    case False
    then show ?thesis using B' by simp
  next
    case True
    with B obtain gw where gw: "b = Some gw" "is_vector (sizes input ! 1) gw"
      "\<forall>c<i. data gw ! c = chan_dotp input grad_out (data mt ! c) c * stat_invstd train eps vt c"
      by auto
    have "\<forall>c<Suc i. data (acc_write gw i (?dotp * ?inv)) ! c
        = chan_dotp input grad_out (data mt ! c) c * stat_invstd train eps vt c"
      by (rule acc_write_nth [OF gw(2) i gw(3)]) simp
    then show ?thesis using True gw(1,2) by (simp add: acc_write_vector)
  qed
  have P2: "if m2 then
          (\<exists>gb. grad_bias ?g' = Some gb \<and> is_vector (sizes input ! 1) gb
             \<and> (\<forall>c<Suc i. data gb ! c = chan_sum grad_out c))
        else grad_bias ?g' = None"
  proof (cases m2)
    case False
    then show ?thesis using C' by simp
  next
    case True
    with C obtain gb where gb: "c = Some gb" "is_vector (sizes input ! 1) gb"
      "\<forall>c<i. data gb ! c = chan_sum grad_out c"
      by auto
    have "\<forall>c<Suc i. data (acc_write gb i (data sum_a ! i)) ! c = chan_sum grad_out c"
      by (rule acc_write_nth [OF gb(2) i gb(3)]) (simp add: sum_a [OF i])
    then show ?thesis using True gb(1,2) by (simp add: acc_write_vector)
  qed
  have "backward_post grad_out input weight mt vt train eps (m0, m1, m2) (Suc i) ?g'"
    unfolding backward_post_def using P0 P1 P2 by simp
  with run show ?thesis by blast
qed

lemma backward_template_result:
  fixes train :: bool and eps :: scalar
  assumes wf: "wf_input input" and go: "sizes grad_out = sizes input"
    and w: "opt_vector (sizes input ! 1) weight"
    and wm: "m1 \<or> m2 \<longrightarrow> weight \<noteq> None"
    and osm: "opt_vector (sizes input ! 1) save_mean"
    and osi: "opt_vector (sizes input ! 1) save_invstd"
    and orm: "opt_vector (sizes input ! 1) running_mean"
    and orv: "opt_vector (sizes input ! 1) running_var"
    and mt: "(if train then save_mean else running_mean) = Some mt"
    and vt: "(if train then save_invstd else running_var) = Some vt"
  shows "\<exists>g. batch_norm_backward_cpu_template grad_out input weight running_mean running_var
               save_mean save_invstd train eps (m0, m1, m2) = Inr g
           \<and> backward_post grad_out input weight mt vt train eps (m0, m1, m2)
                (sizes input ! 1) g"
proof -
  let ?C = "sizes input ! 1"
  have d: "2 \<le> dim input" and C: "0 < ?C" using wf by (simp_all add: wf_input_def)
  define gw0 where "gw0 = (if m1 then map_option empty_like weight else None)"
  define gb0 where "gb0 = (if m2 then map_option empty_like weight else None)"
  define g0 where "g0 = \<lparr>grad_input = (if m0 then Some (empty_like input) else None),
                          grad_weight = gw0, grad_bias = gb0\<rparr>"
  have e1: "(if m1 then and_then (empty_like_opt weight) (\<lambda>t. Inr (Some t)) else Inr None)
              = Inr gw0"
    using wm by (cases weight) (auto simp: gw0_def empty_like_opt_def)
  have e2: "(if m2 then and_then (empty_like_opt weight) (\<lambda>t. Inr (Some t)) else Inr None)
              = Inr gb0"
    using wm by (cases weight) (auto simp: gb0_def empty_like_opt_def)
  have ov0: "opt_vector ?C gw0" "opt_vector ?C gb0"
    using w by (cases weight; simp add: gw0_def gb0_def opt_vector_def empty_like_vector)+
  let ?sum_a = "vector_like (at_sum grad_out) grad_out"
  have sum_a: "\<And>c. c < ?C \<Longrightarrow> data ?sum_a ! c = chan_sum grad_out c"
    using go by (simp add: vector_like_def at_sum_nth)
  have init: "backward_post grad_out input weight mt vt train eps (m0, m1, m2) 0 g0"
    using wm w
    by (cases weight)
       (auto simp: backward_post_def g0_def gw0_def gb0_def empty_like_def opt_vector_def
          is_vector_def numel_def)
  have loop: "\<exists>g. for_each (backward_channel grad_out input weight running_mean running_var
                save_mean save_invstd ?sum_a train eps (m0, m1, m2) (chan_count (sizes input)))
              [0..<?C] g0 = Inr g
           \<and> backward_post grad_out input weight mt vt train eps (m0, m1, m2) ?C g"
    by (rule for_each_upt_invariant
          [where Inv = "backward_post grad_out input weight mt vt train eps (m0, m1, m2)",
            OF init backward_channel_step [OF wf go mt vt sum_a]])
  show ?thesis
    unfolding batch_norm_backward_cpu_template_def
    using loop
    by (simp del: One_nat_def add: Let_def e1 e2 size_at_1 [OF d] int_div_channels [OF d C]
        conditional_accessor_1d_vector [OF w] conditional_accessor_1d_vector [OF osm]
        conditional_accessor_1d_vector [OF osi] conditional_accessor_1d_vector [OF orm]
        conditional_accessor_1d_vector [OF orv] conditional_accessor_1d_vector [OF ov0(1)]
        conditional_accessor_1d_vector [OF ov0(2)] g0_def)
qed

subsection \<open>The gradient of the input in training mode (C1)\<close>



subsection \<open>The gradients of weight and bias (C6)\<close>

text \<open>
  On a call with a weight, in both modes, the gradient of the weight of channel
  \<open>c\<close>, when selected, is \<open>dotp * invstd\<close>, and the gradient of the bias, when
  selected, is the sum of the output gradient over the channel. The mode only
  decides where the mean and the inverse standard deviation come from: the saved
  statistics in training mode, the running statistics in evaluation mode.
\<close>

lemma grad_weight_bias_with_weight:
  fixes train :: bool
  assumes "wf_input input" and "sizes grad_out = sizes input"
    and "is_vector (sizes input ! 1) weight"
    and "opt_vector (sizes input ! 1) save_mean"
    and "opt_vector (sizes input ! 1) save_invstd"
    and "opt_vector (sizes input ! 1) running_mean"
    and "opt_vector (sizes input ! 1) running_var"
    and "(if train then save_mean else running_mean) = Some mean"
    and "(if train then save_invstd else running_var) = Some var"
    and "c < sizes input ! 1"
  shows "\<exists>g. batch_norm_backward_cpu_template grad_out input (Some weight) running_mean
               running_var save_mean save_invstd train eps (m0, m1, m2) = Inr g
     \<and> (m1 \<longrightarrow> (\<exists>gw. grad_weight g = Some gw
            \<and> data gw ! c
                = chan_dotp input grad_out (data mean ! c) c
                  * (if train then data var ! c else Fin 1 / fp_sqrt (data var ! c + eps))))
     \<and> (m2 \<longrightarrow> (\<exists>gb. grad_bias g = Some gb \<and> data gb ! c = chan_sum grad_out c))
     \<and> (\<not> m1 \<longrightarrow> grad_weight g = None)
     \<and> (\<not> m2 \<longrightarrow> grad_bias g = None)"
proof -
  have w: "opt_vector (sizes input ! 1) (Some weight)"
    using assms(3) by (simp add: opt_vector_def)
  have wm: "m1 \<or> m2 \<longrightarrow> Some weight \<noteq> None" by simp
  from backward_template_result [OF assms(1,2) w wm assms(4-9), of eps m0]
  obtain g where g: "batch_norm_backward_cpu_template grad_out input (Some weight) running_mean
               running_var save_mean save_invstd train eps (m0, m1, m2) = Inr g"
    and post: "backward_post grad_out input (Some weight) mean var train eps (m0, m1, m2)
                 (sizes input ! 1) g"
    by blast
  show ?thesis
    using g post assms(10) unfolding backward_post_def stat_invstd_def
    by (cases m1; cases m2) auto
qed

lemma grad_weight_bias_with_weight_example:
  "\<exists>g gw gb. batch_norm_backward_cpu_template (tens [2, 2, 2] [1, 0, 0, 1, 2, 1, 1, 1])
             (tens [2, 2, 2] [1, 2, 3, 4, 5, 6, 7, 8]) (Some (vec [2, 3]))
             (Some (vec [1, 1])) (Some (vec [1, 4])) None None False (Fin 0) (True, True, True)
           = Inr g
     \<and> grad_weight g = Some gw \<and> data gw ! 0 = Fin 13
     \<and> grad_bias g = Some gb \<and> data gb ! 0 = Fin 4"
proof -
  let ?go = "tens [2, 2, 2] [1, 0, 0, 1, 2, 1, 1, 1]"
  let ?inp = "tens [2, 2, 2] [1, 2, 3, 4, 5, 6, 7, 8]"
  let ?rm = "vec [1, 1]" and ?rv = "vec [1, 4]"
  have 1: "wf_input ?inp" by code_simp
  have 2: "sizes ?go = sizes ?inp" by code_simp
  have 3: "is_vector (sizes ?inp ! 1) (vec [2, 3])" by code_simp
  have 4: "opt_vector (sizes ?inp ! 1) None" by code_simp
  have 5: "opt_vector (sizes ?inp ! 1) (Some ?rm)" by code_simp
  have 6: "opt_vector (sizes ?inp ! 1) (Some ?rv)" by code_simp
  have 7: "(if False then None else Some ?rm) = Some ?rm" by simp
  have 8: "(if False then None else Some ?rv) = Some ?rv" by simp
  have 9: "0 < sizes ?inp ! 1" by code_simp
  have s: "data ?rv ! 0 + Fin 0 = Fin 1" by code_simp
  have v: "chan_dotp ?inp ?go (data ?rm ! 0) 0 = Fin 13" "chan_sum ?go 0 = Fin 4"
    by code_simp+
  from grad_weight_bias_with_weight [OF 1 2 3 4 4 5 6 7 8 9, of "Fin 0" True True True]
  show ?thesis unfolding v s by (auto simp: )
qed

text \<open>
  On a call without weight, both gradients are allocated with
  \<^verbatim>\<open>at::empty_like(weight)\<close>: the call fails as soon as one of them is selected,
  whatever the other arguments are.
\<close>

lemma grad_weight_bias_without_weight:
  assumes "m1 \<or> m2"
  shows "batch_norm_backward_cpu_template grad_out input None running_mean running_var save_mean
           save_invstd train eps (m0, m1, m2) = Inl UndefinedTensor"
  using assms
  by (cases m1) (simp_all add: batch_norm_backward_cpu_template_def empty_like_opt_def
        and_then_def)

lemmas backward_eval =
  batch_norm_backward_cpu_template_def backward_channel_def backward_grad_in_def
  empty_like_opt_def empty_like_def conditional_accessor_1d_def accessor_1d_def size_at_def
  int_div_def dim_def numel_def vector_like_def at_sum_def select1_def select1_write_def
  chan_offset_def chan_count_def fsum_def acc_get_def acc_set_def acc_write_def uninit_def
  tens_def vec_def of_count_def minus_scalar_def chan_sum_def

text \<open>
  C6: for every backward call the gradient of the bias, when selected, is to be the
  sum of the output gradient over the channel. The first call below has no weight
  and selects the gradient of the bias alone: \<open>grad_bias\<close> is allocated from the
  absent weight, the call fails, and no gradient is returned where the claim gives
  3 for channel 0. The same call with the weight \<open>[1]\<close> returns this 3. The same
  call without weight that selects the gradient of the input succeeds: the loop
  itself reads an absent weight as 1.
\<close>

theorem backward_grad_bias_without_weight:
  "batch_norm_backward_cpu_template (tens [2, 1] [1, 2]) (tens [2, 1] [3, 5]) None None None
       (Some (vec [4])) (Some (vec [2])) True (Fin 0) (False, False, True)
     = Inl UndefinedTensor
   \<and> chan_sum (tens [2, 1] [1, 2]) 0 = Fin 3
   \<and> batch_norm_backward_cpu_template (tens [2, 1] [1, 2]) (tens [2, 1] [3, 5]) (Some (vec [1]))
       None None (Some (vec [4])) (Some (vec [2])) True (Fin 0) (False, False, True)
     = Inr \<lparr>grad_input = None, grad_weight = None, grad_bias = Some (vec [3])\<rparr>
   \<and> batch_norm_backward_cpu_template (tens [2, 1] [1, 2]) (tens [2, 1] [3, 5]) None None None
       (Some (vec [4])) (Some (vec [2])) True (Fin 0) (True, False, False)
     = Inr \<lparr>grad_input = Some (tens [2, 1] [3, - 3]), grad_weight = None, grad_bias = None\<rparr>"
proof -
  have 1: "batch_norm_backward_cpu_template (tens [2, 1] [1, 2]) (tens [2, 1] [3, 5]) None None None
       (Some (vec [4])) (Some (vec [2])) True (Fin 0) (False, False, True)
     = Inl UndefinedTensor"
    by (simp add: batch_norm_backward_cpu_template_def empty_like_opt_def and_then_def)
  have 2: "chan_sum (tens [2, 1] [1, 2]) 0 = Fin 3"
    by code_simp
  have 3: "batch_norm_backward_cpu_template (tens [2, 1] [1, 2]) (tens [2, 1] [3, 5]) (Some (vec [1]))
       None None (Some (vec [4])) (Some (vec [2])) True (Fin 0) (False, False, True)
     = Inr \<lparr>grad_input = None, grad_weight = None, grad_bias = Some (vec [3])\<rparr>"
    by (simp add: backward_eval upt_conv_Cons)
  have 4: "batch_norm_backward_cpu_template (tens [2, 1] [1, 2]) (tens [2, 1] [3, 5]) None None None
       (Some (vec [4])) (Some (vec [2])) True (Fin 0) (True, False, False)
     = Inr \<lparr>grad_input = Some (tens [2, 1] [3, - 3]), grad_weight = None, grad_bias = None\<rparr>"
    by (simp add: backward_eval upt_conv_Cons numeral_2_eq_2)
  from 1 2 3 4 show ?thesis by blast
qed

section \<open>The fused inference form\<close>

lemma times_assoc_scalar: "(a * b) * c = a * (b * (c::scalar))"
  by (cases a; cases b; cases c)
     (auto simp: signed_inf_def sgn_mult mult_less_0_iff zero_less_mult_iff sgn_if)

lemma inv_var_cases:
  "inv_var_at variance eps c = PInf \<longleftrightarrow> data variance ! c + eps = Fin 0"
  "inv_var_at variance eps c \<noteq> NInf"
  by (cases "data variance ! c + eps"; simp add: inv_var_at_def signed_inf_def)+

lemma fused_identity:
  assumes "is_fin m" "is_fin w" "is_fin b" "iv \<noteq> PInf" "iv \<noteq> NInf"
  shows "x * (iv * w) + (b - m * (iv * w)) = (x - m) * iv * w + b"
proof -
  obtain m' w' b' where [simp]: "m = Fin m'" "w = Fin w'" "b = Fin b'"
    using assms(1-3) by (cases m; cases w; cases b) auto
  show ?thesis
    using assms(4,5)
    by (cases x; cases iv)
       (auto simp: minus_scalar_def signed_inf_def algebra_simps sgn_mult sgn_if
          mult_less_0_iff zero_less_mult_iff)
qed

lemma collect_channel_eq:
  "collect_channel weight bias mean variance eps c ab =
     ((fst ab)[c := inv_var_at variance eps c * weight_at weight c],
      (snd ab)[c := bias_at bias c - data mean ! c * inv_var_at variance eps c * weight_at weight c])"
  by (simp add: collect_channel_def Let_def inv_var_at_def weight_at_def bias_at_def)

lemma collect_fold:
  assumes la: "length alpha = C" and lb: "length beta = C"
  shows "batch_norm_cpu_inference_collect_linear_and_constant_terms alpha beta C weight bias
           mean variance eps
     = (map (\<lambda>c. inv_var_at variance eps c * weight_at weight c) [0..<C],
        map (\<lambda>c. bias_at bias c - data mean ! c * inv_var_at variance eps c * weight_at weight c)
          [0..<C])"
proof -
  let ?A = "\<lambda>c. inv_var_at variance eps c * weight_at weight c"
  let ?B = "\<lambda>c. bias_at bias c - data mean ! c * inv_var_at variance eps c * weight_at weight c"
  define Inv where "Inv i ab \<longleftrightarrow>
      fst ab = map (\<lambda>c. if c < i then ?A c else alpha ! c) [0..<C]
      \<and> snd ab = map (\<lambda>c. if c < i then ?B c else beta ! c) [0..<C]"
    for i and ab :: "scalar list \<times> scalar list"
  have init: "Inv 0 (alpha, beta)"
    using la lb by (simp add: Inv_def map_upt_nth_self)
  have step: "Inv (Suc i) (collect_channel weight bias mean variance eps i ab)"
    if "i < C" "Inv i ab" for i ab
    using that
    by (simp add: Inv_def collect_channel_eq map_upt_update [where F = ?A]
        map_upt_update [where F = ?B])
  have "Inv C (fold (collect_channel weight bias mean variance eps) [0..<C] (alpha, beta))"
    by (rule fold_upt_invariant [where Inv = Inv, OF init step])
  then show ?thesis
    unfolding batch_norm_cpu_inference_collect_linear_and_constant_terms_def Inv_def
    by (simp add: prod_eq_iff)
qed

lemma fold_nested:
  "fold (\<lambda>x. fold (h x) ys) xs = fold (\<lambda>(x, y). h x y) (List.product xs ys)"
  by (induction xs) (simp_all add: fold_map comp_def)

lemma cl_offset_inj:
  fixes C I :: nat
  assumes "c < C" "c' < C" "i < I" "i' < I"
    and eq: "n * I * C + i * C + c = n' * I * C + i' * C + c'"
  shows "n = n' \<and> i = i' \<and> c = c'"
proof -
  have e: "(n * I + i) * C + c = (n' * I + i') * C + c'"
    using eq by (simp add: algebra_simps)
  have C: "0 < C" using assms(1) by simp
  have "((n * I + i) * C + c) div C = n * I + i" "((n' * I + i') * C + c') div C = n' * I + i'"
    using assms(1,2) by simp_all
  with e have q: "n * I + i = n' * I + i'" by simp
  have "((n * I + i) * C + c) mod C = c" "((n' * I + i') * C + c') mod C = c'"
    using assms(1,2) by simp_all
  with e have c: "c = c'" by simp
  have "(n * I + i) div I = n" "(n' * I + i') div I = n'"
    using assms(3,4) by simp_all
  with q have n: "n = n'" by simp
  with q have "i = i'" by simp
  with n c show ?thesis by simp
qed

lemma cl_offset_less:
  fixes C I N :: nat
  assumes "n < N" "i < I" "c < C"
  shows "n * I * C + i * C + c < N * I * C"
proof -
  have "n * I * C + i * C + c < (n * I + i) * C + C"
    using assms(3) by (simp add: algebra_simps)
  also have "\<dots> = (n * I + Suc i) * C" by (simp add: algebra_simps)
  also have "\<dots> \<le> (n * I + I) * C" using assms(2) by (intro mult_le_mono1) simp
  also have "\<dots> = Suc n * I * C" by (simp add: algebra_simps)
  also have "\<dots> \<le> N * I * C" using assms(1) by (intro mult_le_mono1) simp
  finally show ?thesis .
qed

lemma channels_last_loop:
  fixes C I N :: nat
  assumes n: "n < N" and i: "i < I" and c: "c < C" and len: "N * I * C \<le> length out"
  shows "fold (\<lambda>n. fold (\<lambda>i. fold (\<lambda>c out.
                  (let offset = n * I * C + i * C + c
                   in out[offset := v offset c]))
                [0..<C]) [0..<I]) [0..<N] out ! (n * I * C + i * C + c)
         = v (n * I * C + i * C + c) c"
proof -
  let ?js = "List.product [0..<N] (List.product [0..<I] [0..<C])"
  let ?g = "\<lambda>j. fst j * I * C + fst (snd j) * C + snd (snd j)"
  let ?w = "\<lambda>j. v (?g j) (snd (snd j))"
  have flat: "fold (\<lambda>n. fold (\<lambda>i. fold (\<lambda>c out.
                  (let offset = n * I * C + i * C + c
                   in out[offset := v offset c]))
                [0..<C]) [0..<I]) [0..<N] = fold (\<lambda>j d. d[?g j := ?w j]) ?js"
    by (simp add: fold_nested Let_def case_prod_unfold)
  have inj: "inj_on ?g (set ?js)"
    by (auto simp: inj_on_def dest: cl_offset_inj)
  have dist: "distinct ?js"
    by (simp add: distinct_product)
  have mem: "(n, i, c) \<in> set ?js" using n i c by simp
  have lt: "?g (n, i, c) < length out"
    using cl_offset_less [OF n i c] len by simp
  have "fold (\<lambda>j d. d[?g j := ?w j]) ?js out ! ?g (n, i, c) = ?w (n, i, c)"
    by (rule fold_update_hit [OF inj dist mem lt])
  then show ?thesis unfolding flat by simp
qed

lemma channels_last_loop1:
  fixes I N :: nat
  assumes n: "n < N" and i: "i < I" and len: "N * I \<le> length out"
  shows "fold (\<lambda>n. fold (\<lambda>i out.
                  (let offset = n * I + i in out[offset := v offset]))
                [0..<I]) [0..<N] out ! (n * I + i)
         = v (n * I + i)"
proof -
  let ?js = "List.product [0..<N] [0..<I]"
  let ?g = "\<lambda>j. fst j * I + snd j"
  let ?w = "\<lambda>j. v (?g j)"
  have flat: "fold (\<lambda>n. fold (\<lambda>i out.
                  (let offset = n * I + i in out[offset := v offset]))
                [0..<I]) [0..<N] = fold (\<lambda>j d. d[?g j := ?w j]) ?js"
    by (simp add: fold_nested Let_def case_prod_unfold)
  have inj: "inj_on ?g (set ?js)"
  proof (rule inj_onI)
    fix x y assume "x \<in> set ?js" "y \<in> set ?js" "?g x = ?g y"
    then have "fst x * I * 1 + snd x * 1 + 0 = fst y * I * 1 + snd y * 1 + (0::nat)"
      "snd x < I" "snd y < I" by auto
    from cl_offset_inj [OF _ _ this(2,3), of 0 1 0, OF _ _ this(1)]
    show "x = y" by (simp add: prod_eq_iff)
  qed
  have dist: "distinct ?js"
    by (simp add: distinct_product)
  have mem: "(n, i) \<in> set ?js" using n i by simp
  have "n * I + i < Suc n * I" using i by simp
  also have "\<dots> \<le> N * I" using n by (intro mult_le_mono1) simp
  finally have lt: "?g (n, i) < length out" using len by simp
  have "fold (\<lambda>j d. d[?g j := ?w j]) ?js out ! ?g (n, i) = ?w (n, i)"
    by (rule fold_update_hit [OF inj dist mem lt])
  then show ?thesis unfolding flat by simp
qed

lemma image_size_eq:
  assumes "2 \<le> dim t" "0 < sizes t ! 0" "0 < sizes t ! 1"
  shows "numel t div sizes t ! 0 div sizes t ! 1 = prod_list (drop 2 (sizes t))"
    and "sizes t ! 0 * prod_list (drop 2 (sizes t)) * sizes t ! 1 = numel t"
  using assms by (simp_all del: One_nat_def add: numel_split mult.assoc)

lemma channels_last_result:
  fixes weight bias :: "tensor option" and mean variance :: tensor and eps :: scalar
  assumes d: "2 \<le> dim input" and N: "0 < sizes input ! 0" and C: "0 < sizes input ! 1"
    and lo: "length (data output) = numel input"
    and m: "is_vector (sizes input ! 1) mean"
  defines "I \<equiv> numel input div sizes input ! 0 div sizes input ! 1"
  defines "alpha \<equiv> map (\<lambda>c. inv_var_at variance eps c * weight_at weight c)
                       [0..<sizes input ! 1]"
  defines "beta \<equiv> map (\<lambda>c. bias_at bias c
                           - data mean ! c * inv_var_at variance eps c * weight_at weight c)
                      [0..<sizes input ! 1]"
  shows "\<exists>out. batch_norm_cpu_inference_channels_last output input weight bias mean variance eps
                 = Inr out
           \<and> (\<forall>n < sizes input ! 0. \<forall>i < I. \<forall>c < sizes input ! 1.
                 data out ! (n * I * sizes input ! 1 + i * sizes input ! 1 + c)
                 = data input ! (n * I * sizes input ! 1 + i * sizes input ! 1 + c) * alpha ! c
                   + beta ! c)"
proof -
  let ?N = "sizes input ! 0" and ?C = "sizes input ! 1"
  have s0: "size_at input 0 = Inr ?N" and s1: "size_at input 1 = Inr ?C"
    using d by (simp_all add: size_at_def)
  have q: "int_div (numel input) ?N = Inr (numel input div ?N)"
    and q2: "int_div (numel input div ?N) ?C = Inr I"
    using N C by (simp_all add: int_div_def I_def)
  have lm: "length (data (empty_like mean)) = ?C"
    using m by (simp add: empty_like_def is_vector_def numel_def)
  have ab: "batch_norm_cpu_inference_collect_linear_and_constant_terms
                 (data (empty_like mean)) (data (empty_like mean)) ?C weight bias
                 mean variance eps = (alpha, beta)"
    unfolding alpha_def beta_def by (rule collect_fold [OF lm lm])
  have len: "?N * I * ?C \<le> length (data output)"
    using image_size_eq [OF d N C] lo by (simp add: I_def)
  let ?out = "output\<lparr>data :=
           (if ?C \<noteq> 1 then
              fold (\<lambda>n. fold (\<lambda>i. fold (\<lambda>c out.
                  (let offset = n * I * ?C + i * ?C + c
                   in out[offset := data input ! offset * alpha ! c + beta ! c]))
                [0..<?C]) [0..<I]) [0..<?N] (data output)
            else
              fold (\<lambda>n. fold (\<lambda>i out.
                  (let offset = n * I + i
                   in out[offset := data input ! offset * alpha ! 0 + beta ! 0]))
                [0..<I]) [0..<?N] (data output))\<rparr>"
  have run: "batch_norm_cpu_inference_channels_last output input weight bias mean variance eps
                 = Inr ?out"
    unfolding batch_norm_cpu_inference_channels_last_def s0 s1 q q2 and_then_Inr Let_def ab
      fst_conv snd_conv
    by (rule refl)
  have val: "data ?out ! (n * I * ?C + i * ?C + c)
                 = data input ! (n * I * ?C + i * ?C + c) * alpha ! c + beta ! c"
    if n: "n < ?N" and i: "i < I" and c: "c < ?C" for n i c
  proof (cases "?C = 1")
    case False
    then show ?thesis
      using channels_last_loop [OF n i c len,
          where v = "\<lambda>offset c. data input ! offset * alpha ! c + beta ! c"]
      by (simp del: One_nat_def)
  next
    case True
    have len1: "?N * I \<le> length (data output)" using len True by simp
    have c0: "c = 0" using c True by simp
    show ?thesis
      using channels_last_loop1 [OF n i len1,
          where v = "\<lambda>offset. data input ! offset * alpha ! 0 + beta ! 0"] True c0
      by (simp del: One_nat_def)
  qed
  show ?thesis using run val by blast
qed

subsection \<open>The fused coefficients (C5)\<close>

text \<open>
  C5, as stated: for every channel and every input value, the fused form
  \<open>x * alpha + beta\<close> equals \<open>(x - mean) * invstd * weight + bias\<close>. With variance
  0 and epsilon 0 the inverse standard deviation is infinite; for mean 0 the constant
  term \<open>beta\<close> is then \<open>0 - 0 * \<infinity>\<close>, a NaN, and the channels-last path writes
  NaN where the unfused form is infinite.
\<close>

theorem fused_form_zero_variance_counterexample:
  "batch_norm_cpu_inference_channels_last (tens [1, 1, 1] [0]) (tens [1, 1, 1] [1]) None None
       (vec [0]) (vec [0]) (Fin 0)
     = Inr ((tens [1, 1, 1] [0])\<lparr>data := [NaN]\<rparr>)
   \<and> (Fin 1 - data (vec [0]) ! 0) * (Fin 1 / fp_sqrt (data (vec [0]) ! 0 + Fin 0)) * Fin 1 + Fin 0
     = PInf"
  by (simp add: batch_norm_cpu_inference_channels_last_def size_at_def dim_def int_div_def
      numel_def tens_def vec_def Let_def empty_like_def uninit_def
      batch_norm_cpu_inference_collect_linear_and_constant_terms_def collect_channel_def
      minus_scalar_def signed_inf_def)

text \<open>
  C5, amended: for well-formed arguments and every channel \<open>c\<close>,
  \<open>alpha[c] = invstd[c] * weight[c]\<close> and \<open>beta[c] = bias[c] - mean[c] * alpha[c]\<close>
  with \<open>invstd[c] = 1 / sqrt (var[c] + eps)\<close>, weight 1 and bias 0 when absent, and
  the channels-last path writes \<open>x * alpha[c] + beta[c]\<close> for every element \<open>x\<close> of
  the channel. When the mean, weight and bias of the channel are finite and
  \<open>var[c] + eps\<close> is not 0, this equals
  \<open>(x - mean[c]) * invstd[c] * weight[c] + bias[c]\<close> for every \<open>x\<close>.
\<close>

theorem fused_inference_form:
  assumes "2 \<le> dim input" and "0 < sizes input ! 0" and "0 < sizes input ! 1"
    and "length (data input) = numel input" and "length (data output) = numel input"
    and "is_vector (sizes input ! 1) mean" and "is_vector (sizes input ! 1) variance"
    and "opt_vector (sizes input ! 1) weight" and "opt_vector (sizes input ! 1) bias"
    and "c < sizes input ! 1"
  shows "\<exists>out alpha beta.
      batch_norm_cpu_inference_collect_linear_and_constant_terms (data (empty_like mean))
        (data (empty_like mean)) (sizes input ! 1) weight bias mean variance eps = (alpha, beta)
    \<and> batch_norm_cpu_inference_channels_last output input weight bias mean variance eps = Inr out
    \<and> alpha ! c = Fin 1 / fp_sqrt (data variance ! c + eps) * weight_at weight c
    \<and> beta ! c = bias_at bias c - data mean ! c * alpha ! c
    \<and> (\<forall>n < sizes input ! 0. \<forall>i < numel input div sizes input ! 0 div sizes input ! 1.
          data out ! (n * (numel input div sizes input ! 0 div sizes input ! 1) * sizes input ! 1
                      + i * sizes input ! 1 + c)
          = data input ! (n * (numel input div sizes input ! 0 div sizes input ! 1)
                            * sizes input ! 1 + i * sizes input ! 1 + c)
              * alpha ! c + beta ! c)
    \<and> (is_fin (data mean ! c) \<and> is_fin (weight_at weight c) \<and> is_fin (bias_at bias c)
        \<and> data variance ! c + eps \<noteq> Fin 0 \<longrightarrow>
        (\<forall>x. x * alpha ! c + beta ! c
               = (x - data mean ! c) * (Fin 1 / fp_sqrt (data variance ! c + eps))
                   * weight_at weight c + bias_at bias c))"
proof -
  let ?C = "sizes input ! 1"
  let ?alpha = "map (\<lambda>c. inv_var_at variance eps c * weight_at weight c) [0..<?C]"
  let ?beta = "map (\<lambda>c. bias_at bias c
                           - data mean ! c * inv_var_at variance eps c * weight_at weight c)
                      [0..<?C]"
  have lm: "length (data (empty_like mean)) = ?C"
    using assms(6) by (simp add: empty_like_def is_vector_def numel_def)
  have ab: "batch_norm_cpu_inference_collect_linear_and_constant_terms
                 (data (empty_like mean)) (data (empty_like mean)) ?C weight bias
                 mean variance eps = (?alpha, ?beta)"
    by (rule collect_fold [OF lm lm])
  from channels_last_result [OF assms(1-3,5,6), where variance = variance and eps = eps
      and weight = weight and bias = bias]
  obtain out where run: "batch_norm_cpu_inference_channels_last output input weight bias mean
      variance eps = Inr out"
    and val: "\<forall>n < sizes input ! 0. \<forall>i < numel input div sizes input ! 0 div ?C. \<forall>c < ?C.
          data out ! (n * (numel input div sizes input ! 0 div ?C) * ?C + i * ?C + c)
          = data input ! (n * (numel input div sizes input ! 0 div ?C) * ?C + i * ?C + c)
              * ?alpha ! c + ?beta ! c"
    by blast
  have a: "?alpha ! c = Fin 1 / fp_sqrt (data variance ! c + eps) * weight_at weight c"
    using assms(10) by (simp add: inv_var_at_def)
  have b: "?beta ! c = bias_at bias c - data mean ! c * ?alpha ! c"
    using assms(10) by (simp add: times_assoc_scalar)
  have idn: "x * ?alpha ! c + ?beta ! c
               = (x - data mean ! c) * (Fin 1 / fp_sqrt (data variance ! c + eps))
                   * weight_at weight c + bias_at bias c"
    if "is_fin (data mean ! c)" "is_fin (weight_at weight c)" "is_fin (bias_at bias c)"
      "data variance ! c + eps \<noteq> Fin 0" for x
  proof -
    have "inv_var_at variance eps c \<noteq> PInf" "inv_var_at variance eps c \<noteq> NInf"
      using that(4) inv_var_cases [of variance eps c] by simp_all
    from fused_identity [OF that(1-3) this, of x]
    show ?thesis
      using assms(10) by (simp add: times_assoc_scalar inv_var_at_def)
  qed
  show ?thesis
    using ab run a b val idn assms(10) by blast
qed

theorem fused_inference_form_witness:
  "\<exists>out alpha beta.
      batch_norm_cpu_inference_collect_linear_and_constant_terms (data (empty_like (vec [1, 1])))
        (data (empty_like (vec [1, 1]))) 2 (Some (vec [2, 3])) None (vec [1, 1]) (vec [1, 4])
        (Fin 0) = (alpha, beta)
    \<and> batch_norm_cpu_inference_channels_last (tens [1, 2, 2] [0, 0, 0, 0])
        (tens [1, 2, 2] [1, 2, 3, 4]) (Some (vec [2, 3])) None (vec [1, 1]) (vec [1, 4]) (Fin 0)
        = Inr out
    \<and> alpha ! 1 = Fin (3 / 2) \<and> beta ! 1 = Fin (- 3 / 2) \<and> data out ! 1 = Fin (3 / 2)
    \<and> (\<forall>x. x * alpha ! 1 + beta ! 1 = (x - Fin 1) * Fin (1 / 2) * Fin 3 + Fin 0)"
proof -
  let ?inp = "tens [1, 2, 2] [1, 2, 3, 4]" and ?outp = "tens [1, 2, 2] [0, 0, 0, 0]"
  let ?w = "Some (vec [2, 3])" and ?m = "vec [1, 1]" and ?v = "vec [1, 4]"
  have h: "2 \<le> dim ?inp" "0 < sizes ?inp ! 0" "0 < sizes ?inp ! 1"
    "length (data ?inp) = numel ?inp" "length (data ?outp) = numel ?inp"
    "is_vector (sizes ?inp ! 1) ?m" "is_vector (sizes ?inp ! 1) ?v"
    "opt_vector (sizes ?inp ! 1) ?w" "opt_vector (sizes ?inp ! 1) None"
    "1 < sizes ?inp ! 1"
    by code_simp+
  have s: "sizes ?inp ! 1 = 2" "sizes ?inp ! 0 = 1" "numel ?inp div 1 div 2 = 2"
    by code_simp+
  have iv: "Fin 1 / fp_sqrt (data ?v ! 1 + Fin 0) = Fin (1 / 2)"
    by (simp add: vec_def tens_def)
  have e: "weight_at ?w 1 = Fin 3" "bias_at None 1 = Fin 0" "data ?m ! 1 = Fin 1"
    "data ?inp ! 1 = Fin 2"
    by (simp_all add: weight_at_def bias_at_def vec_def tens_def)
  have f: "is_fin (Fin 1) \<and> is_fin (Fin 3) \<and> is_fin (Fin 0) \<and> data ?v ! 1 + Fin 0 \<noteq> Fin 0"
    by (simp add: vec_def tens_def)
  from fused_inference_form [OF h, where eps = "Fin 0"]
  obtain out alpha beta where
    1: "batch_norm_cpu_inference_collect_linear_and_constant_terms (data (empty_like ?m))
        (data (empty_like ?m)) 2 ?w None ?m ?v (Fin 0) = (alpha, beta)"
    and 2: "batch_norm_cpu_inference_channels_last ?outp ?inp ?w None ?m ?v (Fin 0) = Inr out"
    and 3: "alpha ! 1 = Fin (1 / 2) * Fin 3"
    and 4: "beta ! 1 = Fin 0 - Fin 1 * alpha ! 1"
    and 5: "\<forall>n < 1. \<forall>i < 2. data out ! (n * 2 * 2 + i * 2 + 1)
               = data ?inp ! (n * 2 * 2 + i * 2 + 1) * alpha ! 1 + beta ! 1"
    and 6: "\<forall>x. x * alpha ! 1 + beta ! 1 = (x - Fin 1) * Fin (1 / 2) * Fin 3 + Fin 0"
    unfolding s iv e using f by blast
  have a: "alpha ! 1 = Fin (3 / 2)" using 3 by simp
  have b: "beta ! 1 = Fin (- 3 / 2)" using 4 a by (simp add: minus_scalar_def)
  from 5 have "data out ! 1 = data ?inp ! 1 * alpha ! 1 + beta ! 1"
    by (auto dest: spec [of _ 0])
  then have o: "data out ! 1 = Fin (3 / 2)" using a b e(4) by simp
  show ?thesis using 1 2 a b o 6 by blast
qed

end
